theory Spec2Isabelle
  imports Main "HOL-Library.Char_ord" "HOL-Library.List_Lexorder" "HOL-Library.Multiset"
begin

section \<open>Python values, JSON and time stamps\<close>

text \<open>
  Values that cross the interfaces of \<open>ActionTracker\<close> and \<open>SessionManager\<close>: \<open>None\<close>,
  booleans, integers, finite floats (\<open>PFloat m e\<close> is \<open>m * 2 ** e\<close>), strings, lists,
  tuples, string-keyed dictionaries as association lists in insertion order, and
  \<open>PObject\<close>, any other Python object (a set, an instance of a class), tagged with its
  type name. \<open>json.dumps\<close> raises \<open>TypeError\<close> exactly on a value that holds such an
  object.
\<close>

datatype pyval =
    PNone
  | PBool bool
  | PInt int
  | PFloat int int
  | PStr string
  | PList "pyval list"
  | PTuple "pyval list"
  | PDict "(string \<times> pyval) list"
  | PObject string

type_synonym pydict = "(string \<times> pyval) list"

text \<open>An exception: the name of its type and \<open>str(e)\<close>.\<close>

datatype pyexc = PyExc (etype: string) (emsg: string)

fun serialisable :: "pyval \<Rightarrow> bool" where
  "serialisable PNone = True"
| "serialisable (PBool b) = True"
| "serialisable (PInt i) = True"
| "serialisable (PFloat m e) = True"
| "serialisable (PStr s) = True"
| "serialisable (PList xs) = (\<forall>x \<in> set xs. serialisable x)"
| "serialisable (PTuple xs) = (\<forall>x \<in> set xs. serialisable x)"
| "serialisable (PDict d) = (\<forall>x \<in> set (map snd d). serialisable x)"
| "serialisable (PObject t) = False"

text \<open>
  A JSON text is represented by the value it decodes to. The encoder writes a tuple as
  an array, so \<open>json.loads(json.dumps(v))\<close> is \<open>v\<close> with every tuple turned into a list.
\<close>

fun json_loads_dumps :: "pyval \<Rightarrow> pyval" where
  "json_loads_dumps (PList xs) = PList (map json_loads_dumps xs)"
| "json_loads_dumps (PTuple xs) = PList (map json_loads_dumps xs)"
| "json_loads_dumps (PDict d) = PDict (map (\<lambda>kv. (fst kv, json_loads_dumps (snd kv))) d)"
| "json_loads_dumps v = v"

definition json_dumps :: "pyval \<Rightarrow> pyexc + pyval" where
  "json_dumps v =
     (if serialisable v then Inr (json_loads_dumps v)
      else Inl (PyExc ''TypeError'' ''Object is not JSON serializable''))"

text \<open>Python truthiness, as used by \<open>if State:\<close>, \<open>if Params:\<close>, \<open>if not SessionId:\<close>.\<close>

fun truthy :: "pyval \<Rightarrow> bool" where
  "truthy PNone = False"
| "truthy (PBool b) = b"
| "truthy (PInt i) = (i \<noteq> 0)"
| "truthy (PFloat m e) = (m \<noteq> 0)"
| "truthy (PStr s) = (s \<noteq> [])"
| "truthy (PList xs) = (xs \<noteq> [])"
| "truthy (PTuple xs) = (xs \<noteq> [])"
| "truthy (PDict d) = (d \<noteq> [])"
| "truthy (PObject t) = True"

definition truthy_str :: "string option \<Rightarrow> bool" where
  "truthy_str x = (case x of None \<Rightarrow> False | Some s \<Rightarrow> s \<noteq> [])"

definition truthy_dict :: "pydict option \<Rightarrow> bool" where
  "truthy_dict x = (case x of None \<Rightarrow> False | Some d \<Rightarrow> d \<noteq> [])"

definition opt_dict :: "pydict option \<Rightarrow> pyval" where
  "opt_dict x = (case x of None \<Rightarrow> PNone | Some d \<Rightarrow> PDict d)"

text \<open>\<open>d[k] = v\<close> on a dictionary: an existing key keeps its place, a new one goes last.\<close>

fun dict_set :: "string \<Rightarrow> pyval \<Rightarrow> pydict \<Rightarrow> pydict" where
  "dict_set k v [] = [(k, v)]"
| "dict_set k v (p # ps) = (if fst p = k then (k, v) # ps else p # dict_set k v ps)"

text \<open>\<open>datetime.now()\<close> returns an object with these fields.\<close>

record datetime =
  year :: nat
  month :: nat
  day :: nat
  hour :: nat
  minute :: nat
  second :: nat
  microsecond :: nat

definition digit :: "nat \<Rightarrow> char" where
  "digit d = ''0123456789'' ! (d mod 10)"

text \<open>Zero padded decimal renderings: \<open>%02d\<close>, \<open>%04d\<close>, \<open>%06d\<close>.\<close>

definition zpad2 :: "nat \<Rightarrow> string" where
  "zpad2 n = [digit (n div 10), digit n]"

definition zpad4 :: "nat \<Rightarrow> string" where
  "zpad4 n = [digit (n div 1000), digit (n div 100), digit (n div 10), digit n]"

definition zpad6 :: "nat \<Rightarrow> string" where
  "zpad6 n = [digit (n div 100000), digit (n div 10000), digit (n div 1000),
              digit (n div 100), digit (n div 10), digit n]"

text \<open>\<open>strftime("%Y%m%d%H%M%S")\<close>: second resolution, the microseconds are dropped.\<close>

definition strftime :: "datetime \<Rightarrow> string" where
  "strftime t =
     zpad4 (year t) @ zpad2 (month t) @ zpad2 (day t) @
     zpad2 (hour t) @ zpad2 (minute t) @ zpad2 (second t)"

definition isoformat :: "datetime \<Rightarrow> string" where
  "isoformat t =
     zpad4 (year t) @ ''-'' @ zpad2 (month t) @ ''-'' @ zpad2 (day t) @ ''T'' @
     zpad2 (hour t) @ '':'' @ zpad2 (minute t) @ '':'' @ zpad2 (second t) @
     (if microsecond t = 0 then [] else ''.'' @ zpad6 (microsecond t))"

text \<open>
  \<open>str.strip()\<close>: leading and trailing white space removed. A character here is one of
  the first 256 code points; \<open>str.isspace\<close> holds for these of them, \<open>U+0085\<close> and
  \<open>U+00A0\<close> included.
\<close>

definition is_space :: "char \<Rightarrow> bool" where
  "is_space c = (c \<in> set [CHR 0x09, CHR 0x0A, CHR 0x0B, CHR 0x0C, CHR 0x0D,
                          CHR 0x1C, CHR 0x1D, CHR 0x1E, CHR 0x1F, CHR 0x20,
                          CHR 0x85, CHR 0xA0])"

definition strip :: "string \<Rightarrow> string" where
  "strip s = rev (dropWhile is_space (rev (dropWhile is_space s)))"

fun contains_str :: "string \<Rightarrow> string \<Rightarrow> bool" where
  "contains_str p [] = (p = [])"
| "contains_str p (c # cs) = (take (length p) (c # cs) = p \<or> contains_str p cs)"

section \<open>The store and the file system\<close>

text \<open>
  The tables of \<open>DatabaseManager.InitializeDatabase\<close> that the session manager and the
  action tracker use. A table is the list of its rows in insertion order; a nullable
  column is an \<open>option\<close>; a column holding JSON text holds the encoded value.
\<close>

record session_row =
  sSessionId :: string
  sStartTime :: string
  sEndTime :: "string option"
  sStatus :: string
  sSummary :: "string option"

record action_row =
  aActionId :: string
  aSessionId :: string
  aActionType :: string
  aStartTime :: string
  aEndTime :: "string option"
  aStatus :: string
  aParams :: "pyval option"
  aResult :: "pyval option"

record snapshot_row =
  nSnapshotId :: string
  nSessionId :: string
  nTimestamp :: string
  nStateData :: pyval

record relationship_row =
  rParentSessionId :: string
  rChildSessionId :: string
  rRelationType :: string

record log_row =
  lTimestamp :: string
  lLogLevel :: string
  lComponent :: string
  lMessage :: string
  lSessionId :: "string option"
  lAdditionalData :: "pyval option"

text \<open>
  A \<open>state.json\<close> file either decodes (\<open>json.load\<close> returns the value) or does not
  (\<open>json.load\<close> raises; the raw text is kept). A session directory holds at most one
  \<open>state.json\<close> and the directories that \<open>shutil.move\<close> has put inside it. A partition
  (\<open>Session/Active\<close>, \<open>Session/Crashed\<close>, \<open>Session/Completed\<close>) maps the name of a
  session to its directory.
\<close>

datatype fcontent = Json pyval | Malformed string

datatype sdir = SDir (state_json: "fcontent option") (subdirs: "string \<Rightarrow> sdir option")

type_synonym partition = "string \<Rightarrow> sdir option"

text \<open>
  The whole state: the manager's \<open>SessionId\<close> field, the lock file (its text when it
  exists), the three partitions, the tables, and the two sources of fresh data, the clock
  and \<open>uuid.uuid4()\<close>, each a sequence with the number of values already drawn.
  \<open>Elsewhere\<close> is the rest of the disk, which the code never writes: for a path, given
  relative to \<open>Session/Crashed\<close>, that leads out of the three partitions, the directory
  it denotes, if there is one.
\<close>

record world =
  SessionId :: "string option"
  LockFile :: "string option"
  ActiveSessionDir :: partition
  CrashSessionDir :: partition
  CompletedSessionDir :: partition
  Sessions :: "session_row list"
  Actions :: "action_row list"
  StateSnapshots :: "snapshot_row list"
  SessionRelationships :: "relationship_row list"
  SystemLogs :: "log_row list"
  Clock :: "nat \<Rightarrow> datetime"
  Ticks :: nat
  Uuids :: "nat \<Rightarrow> string"
  Drawn :: nat
  Elsewhere :: "string \<Rightarrow> sdir option"

definition now :: "world \<Rightarrow> datetime \<times> world" where
  "now w = (Clock w (Ticks w), w\<lparr>Ticks := Suc (Ticks w)\<rparr>)"

definition uuid4 :: "world \<Rightarrow> string \<times> world" where
  "uuid4 w = (Uuids w (Drawn w), w\<lparr>Drawn := Suc (Drawn w)\<rparr>)"


section \<open>DatabaseManager: constrained inserts and updates\<close>

text \<open>
  \<open>InsertWithId\<close> per table. SQLite raises \<open>IntegrityError\<close> when the primary key is
  taken, or (the connection sets \<open>PRAGMA foreign_keys = ON\<close>) when a referenced session
  has no row. \<open>SessionRelationships\<close> and \<open>SystemLogs\<close> have an autoincrement key.
\<close>

definition has_session :: "string \<Rightarrow> world \<Rightarrow> bool" where
  "has_session sid w = (sid \<in> set (map sSessionId (Sessions w)))"

definition insert_Sessions :: "session_row \<Rightarrow> world \<Rightarrow> pyexc + world" where
  "insert_Sessions r w =
     (if has_session (sSessionId r) w
      then Inl (PyExc ''IntegrityError'' ''UNIQUE constraint failed: Sessions.SessionId'')
      else Inr (w\<lparr>Sessions := Sessions w @ [r]\<rparr>))"

definition insert_Actions :: "action_row \<Rightarrow> world \<Rightarrow> pyexc + world" where
  "insert_Actions r w =
     (if aActionId r \<in> set (map aActionId (Actions w))
      then Inl (PyExc ''IntegrityError'' ''UNIQUE constraint failed: Actions.ActionId'')
      else if \<not> has_session (aSessionId r) w
      then Inl (PyExc ''IntegrityError'' ''FOREIGN KEY constraint failed'')
      else Inr (w\<lparr>Actions := Actions w @ [r]\<rparr>))"

definition insert_StateSnapshots :: "snapshot_row \<Rightarrow> world \<Rightarrow> pyexc + world" where
  "insert_StateSnapshots r w =
     (if nSnapshotId r \<in> set (map nSnapshotId (StateSnapshots w))
      then Inl (PyExc ''IntegrityError'' ''UNIQUE constraint failed: StateSnapshots.SnapshotId'')
      else if \<not> has_session (nSessionId r) w
      then Inl (PyExc ''IntegrityError'' ''FOREIGN KEY constraint failed'')
      else Inr (w\<lparr>StateSnapshots := StateSnapshots w @ [r]\<rparr>))"

definition insert_SessionRelationships :: "relationship_row \<Rightarrow> world \<Rightarrow> pyexc + world" where
  "insert_SessionRelationships r w =
     (if \<not> has_session (rParentSessionId r) w \<or> \<not> has_session (rChildSessionId r) w
      then Inl (PyExc ''IntegrityError'' ''FOREIGN KEY constraint failed'')
      else Inr (w\<lparr>SessionRelationships := SessionRelationships w @ [r]\<rparr>))"

text \<open>
  \<open>LogToDatabase\<close>: one clock reading, the additional data encoded when it is truthy;
  every exception is caught inside, so a failed encoding only loses the log row.
\<close>

definition LogToDatabase ::
  "string \<Rightarrow> string \<Rightarrow> string \<Rightarrow> string option \<Rightarrow> pydict option \<Rightarrow> world \<Rightarrow> world" where
  "LogToDatabase LogLevel Component Message Sid AdditionalData w =
     (let (t, w1) = now w in
      if truthy_dict AdditionalData \<and> \<not> serialisable (opt_dict AdditionalData) then w1
      else w1\<lparr>SystemLogs := SystemLogs w1 @
             [\<lparr>lTimestamp = isoformat t, lLogLevel = LogLevel, lComponent = Component,
               lMessage = Message, lSessionId = Sid,
               lAdditionalData = (if truthy_dict AdditionalData
                                  then Some (json_loads_dumps (opt_dict AdditionalData))
                                  else None)\<rparr>]\<rparr>)"

section \<open>SessionManager\<close>

text \<open>
  \<open>open(path, 'w')\<close> followed by \<open>json.dump\<close>: the file decodes to the value afterwards,
  unless the value cannot be encoded, and then a truncated text is left behind.
\<close>

definition dump_file :: "pyval \<Rightarrow> fcontent" where
  "dump_file v = (if serialisable v then Json (json_loads_dumps v) else Malformed [])"

text \<open>
  \<open>shutil.move(src, dst)\<close> of a directory called \<open>name\<close> to \<open>dst/name\<close> in another
  partition: a rename when nothing is there; when a directory is there, the source goes
  inside it under its own name, and \<open>shutil.Error\<close> is raised if that is taken too.
\<close>

definition shutil_move :: "string \<Rightarrow> sdir \<Rightarrow> partition \<Rightarrow> pyexc + partition" where
  "shutil_move name d dst =
     (case dst name of
        None \<Rightarrow> Inr (dst(name \<mapsto> d))
      | Some inner \<Rightarrow>
          (case subdirs inner name of
             None \<Rightarrow> Inr (dst(name \<mapsto> SDir (state_json inner) ((subdirs inner)(name \<mapsto> d))))
           | Some x \<Rightarrow> Inl (PyExc ''Error'' ''Destination path already exists'')))"

definition UpdateSessionStatus :: "string \<Rightarrow> string \<Rightarrow> world \<Rightarrow> bool \<times> world" where
  "UpdateSessionStatus sid Status w =
     (has_session sid w,
      w\<lparr>Sessions := map (\<lambda>r. if sSessionId r = sid then r\<lparr>sStatus := Status\<rparr> else r)
                         (Sessions w)\<rparr>)"

text \<open>
  \<open>CheckForCrashedSessions\<close>. The path tested and moved is
  \<open>f"{ActiveSessionDir}/{CrashedSessionId}"\<close>; for an empty lock file that is the active
  partition itself, which exists, and \<open>shutil.move("Session/Active/", "Session/Crashed/")\<close>
  renames it to \<open>Session/Crashed/Active\<close>, or raises \<open>shutil.Error\<close> when that exists.
  Nothing here catches the exception of \<open>shutil.move\<close>.
\<close>

definition CheckForCrashedSessions :: "world \<Rightarrow> pyexc + world" where
  "CheckForCrashedSessions w =
     (case LockFile w of
        None \<Rightarrow> Inr w
      | Some txt \<Rightarrow>
          (let CrashedSessionId = strip txt in
           if CrashedSessionId = [] then
             (case CrashSessionDir w ''Active'' of
                Some x \<Rightarrow> Inl (PyExc ''Error'' ''Destination path already exists'')
              | None \<Rightarrow>
                  Inr ((snd (UpdateSessionStatus CrashedSessionId ''CRASHED''
                         (w\<lparr>ActiveSessionDir := Map.empty,
                            CrashSessionDir := (CrashSessionDir w)
                              (''Active'' \<mapsto> SDir None (ActiveSessionDir w))\<rparr>)))
                       \<lparr>LockFile := None\<rparr>))
           else
             (case ActiveSessionDir w CrashedSessionId of
                None \<Rightarrow> Inr (w\<lparr>LockFile := None\<rparr>)
              | Some d \<Rightarrow>
                  (case shutil_move CrashedSessionId d (CrashSessionDir w) of
                     Inl e \<Rightarrow> Inl e
                   | Inr c \<Rightarrow>
                       Inr ((snd (UpdateSessionStatus CrashedSessionId ''CRASHED''
                              (w\<lparr>ActiveSessionDir := (ActiveSessionDir w)(CrashedSessionId := None),
                                 CrashSessionDir := c\<rparr>)))
                            \<lparr>LockFile := None\<rparr>)))))"

text \<open>
  \<open>__init__\<close>: a new manager has no current session; \<open>EnsureDirectoriesExist\<close> creates
  the partitions, which changes nothing here, and the scan runs.
\<close>

definition SessionManager_init :: "world \<Rightarrow> pyexc + world" where
  "SessionManager_init w = CheckForCrashedSessions (w\<lparr>SessionId := None\<rparr>)"

text \<open>
  \<open>SaveSessionState\<close>: \<open>False\<close> without a session; the file is opened for writing, which
  fails when the session directory is missing; the snapshot row is inserted after the
  file is written. Every exception ends in \<open>return False\<close>.
\<close>

definition SaveSessionState :: "pydict \<Rightarrow> world \<Rightarrow> bool \<times> world" where
  "SaveSessionState State w =
     (if \<not> truthy_str (SessionId w) then (False, w)
      else
        (let sid = the (SessionId w);
             (t, w1) = now w;
             State1 = dict_set ''LastModified'' (PStr (isoformat t)) State
         in case ActiveSessionDir w1 sid of
              None \<Rightarrow> (False, w1)
            | Some d \<Rightarrow>
                (let w2 = w1\<lparr>ActiveSessionDir := (ActiveSessionDir w1)
                              (sid \<mapsto> SDir (Some (dump_file (PDict State1))) (subdirs d))\<rparr>
                 in if \<not> serialisable (PDict State1) then (False, w2)
                    else
                      (let (SnapshotId, w3) = uuid4 w2
                       in case insert_StateSnapshots
                                 \<lparr>nSnapshotId = SnapshotId, nSessionId = sid,
                                  nTimestamp = isoformat t,
                                  nStateData = json_loads_dumps (PDict State1)\<rparr> w3 of
                            Inl e \<Rightarrow> (False, w3)
                          | Inr w4 \<Rightarrow> (True, w4)))))"

text \<open>
  \<open>LoadSessionState\<close>: the decoded file, or \<open>None\<close> without a session, without a file, or
  when \<open>json.load\<close> raises.
\<close>

definition LoadSessionState :: "world \<Rightarrow> pyval" where
  "LoadSessionState w =
     (if \<not> truthy_str (SessionId w) then PNone
      else
        (case ActiveSessionDir w (the (SessionId w)) of
           None \<Rightarrow> PNone
         | Some d \<Rightarrow>
             (case state_json d of
                None \<Rightarrow> PNone
              | Some (Json v) \<Rightarrow> v
              | Some (Malformed txt) \<Rightarrow> PNone)))"

text \<open>
  The state file patch of \<open>EndSession\<close>, inside its own \<open>try\<close>: only a file that decodes
  to a dictionary is rewritten; anything else raises, is logged, and stays as it is.
\<close>

definition EndSession_patch :: "string \<Rightarrow> string option \<Rightarrow> sdir \<Rightarrow> sdir" where
  "EndSession_patch EndTime Summary d =
     (case state_json d of
        Some (Json (PDict State)) \<Rightarrow>
          (let S1 = dict_set ''EndTime'' (PStr EndTime) State;
               S2 = dict_set ''Status'' (PStr ''COMPLETED'') S1;
               S3 = dict_set ''LastModified'' (PStr EndTime) S2;
               S4 = (if truthy_str Summary then dict_set ''Summary'' (PStr (the Summary)) S3 else S3)
           in SDir (Some (dump_file (PDict S4))) (subdirs d))
      | _ \<Rightarrow> d)"

definition EndSession_finish :: "string \<Rightarrow> string option \<Rightarrow> world \<Rightarrow> bool \<times> world" where
  "EndSession_finish sid Summary w =
     (let w1 = w\<lparr>LockFile := None\<rparr>;
          w2 = LogToDatabase ''INFO'' ''SessionManager'' (''Session '' @ sid @ '' ended'')
                 (Some sid)
                 (if truthy_str Summary then Some [(''Summary'', PStr (the Summary))] else None) w1
      in (True, w2\<lparr>SessionId := None\<rparr>))"

text \<open>
  \<open>EndSession\<close>: \<open>False\<close> at once without a current session. Otherwise the row, the state
  file, the directory and the lock file are handled in this order; the exception of
  \<open>shutil.move\<close> is caught by the outer \<open>try\<close>, which returns \<open>False\<close> and leaves the
  current session in place.
\<close>

definition EndSession :: "string option \<Rightarrow> world \<Rightarrow> bool \<times> world" where
  "EndSession Summary w =
     (if \<not> truthy_str (SessionId w) then (False, w)
      else
        (let sid = the (SessionId w);
             (t, w1) = now w;
             EndTime = isoformat t;
             w2 = w1\<lparr>Sessions :=
                     map (\<lambda>r. if sSessionId r = sid
                               then r\<lparr>sEndTime := Some EndTime, sStatus := ''COMPLETED'',
                                      sSummary := (if truthy_str Summary then Summary
                                                   else sSummary r)\<rparr>
                               else r) (Sessions w1)\<rparr>
         in case ActiveSessionDir w2 sid of
              None \<Rightarrow> EndSession_finish sid Summary w2
            | Some d0 \<Rightarrow>
                (let d = EndSession_patch EndTime Summary d0;
                     w3 = w2\<lparr>ActiveSessionDir := (ActiveSessionDir w2)(sid \<mapsto> d)\<rparr>
                 in case shutil_move sid d (CompletedSessionDir w3) of
                      Inl e \<Rightarrow> (False, w3)
                    | Inr c \<Rightarrow>
                        EndSession_finish sid Summary
                          (w3\<lparr>ActiveSessionDir := (ActiveSessionDir w3)(sid := None),
                              CompletedSessionDir := c\<rparr>))))"

text \<open>\<open>os.makedirs(SessionDir, exist_ok=True)\<close> under the active partition.\<close>

definition makedirs_active :: "string \<Rightarrow> world \<Rightarrow> world" where
  "makedirs_active sid w =
     (case ActiveSessionDir w sid of
        None \<Rightarrow> w\<lparr>ActiveSessionDir := (ActiveSessionDir w)(sid \<mapsto> SDir None Map.empty)\<rparr>
      | Some d \<Rightarrow> w)"

definition CreateLockFile :: "world \<Rightarrow> world" where
  "CreateLockFile w = w\<lparr>LockFile := SessionId w\<rparr>"

text \<open>
  \<open>if self.SessionId: self.EndSession(Summary)\<close>, the first step of \<open>StartSession\<close> and,
  after the directory test, of \<open>ResumeSession\<close>; the value \<open>EndSession\<close> returns is dropped.
\<close>

definition end_current :: "string \<Rightarrow> world \<Rightarrow> world" where
  "end_current Summary w =
     (if truthy_str (SessionId w) then snd (EndSession (Some Summary) w) else w)"

text \<open>
  \<open>StartSession\<close>. The identifier is the clock rendered by \<open>strftime\<close> and is assigned
  to the manager before the row is inserted; the \<open>IntegrityError\<close> of the insert is not
  caught and reaches the caller.
\<close>

definition StartSession :: "world \<Rightarrow> (pyexc + string) \<times> world" where
  "StartSession w =
     (let w0 = end_current ''Ended to start new session'' w;
          (t1, w1) = now w0;
          sid = strftime t1;
          w2 = w1\<lparr>SessionId := Some sid\<rparr>;
          (t2, w3) = now w2;
          StartTime = isoformat t2
      in case insert_Sessions \<lparr>sSessionId = sid, sStartTime = StartTime, sEndTime = None,
                                sStatus = ''ACTIVE'', sSummary = None\<rparr> w3 of
           Inl e \<Rightarrow> (Inl e, w3)
         | Inr w4 \<Rightarrow>
             (let w5 = CreateLockFile (makedirs_active sid w4);
                  w6 = snd (SaveSessionState
                         [(''SessionId'', PStr sid), (''StartTime'', PStr StartTime),
                          (''Messages'', PList []), (''Context'', PDict []),
                          (''LastModified'', PStr StartTime)] w5);
                  w7 = LogToDatabase ''INFO'' ''SessionManager''
                         (''Session '' @ sid @ '' started'') (Some sid) None w6
              in (Inr sid, w7)))"

text \<open>
  The state a resumed session starts from. A crashed state file that decodes to a
  dictionary with a \<open>SessionId\<close> is cloned and restamped; a missing file gives the minimal
  state; every exception in between (\<open>json.load\<close>, \<open>dict(...)\<close>, the key lookup) is caught
  and gives the minimal state too.
\<close>

definition minimal_state :: "string \<Rightarrow> string \<Rightarrow> string \<Rightarrow> pydict" where
  "minimal_state NewId StartTime CrashedId =
     [(''SessionId'', PStr NewId), (''StartTime'', PStr StartTime),
      (''Messages'', PList []), (''Context'', PDict []),
      (''ResumedFrom'', PStr CrashedId), (''LastModified'', PStr StartTime)]"

definition resumed_state :: "fcontent option \<Rightarrow> string \<Rightarrow> string \<Rightarrow> string \<Rightarrow> pydict" where
  "resumed_state file NewId StartTime CrashedId =
     (case file of
        Some (Json (PDict CrashedState)) \<Rightarrow>
          (case map_of CrashedState ''SessionId'' of
             Some orig \<Rightarrow>
               dict_set ''LastModified'' (PStr StartTime)
                 (dict_set ''ResumedFrom'' (PStr CrashedId)
                   (dict_set ''StartTime'' (PStr StartTime)
                     (dict_set ''SessionId'' (PStr NewId)
                       (dict_set ''OriginalSessionId'' orig CrashedState))))
           | None \<Rightarrow> minimal_state NewId StartTime CrashedId)
      | _ \<Rightarrow> minimal_state NewId StartTime CrashedId)"

text \<open>
  What \<open>f"{CrashSessionDir}/{SessionId}"\<close> denotes. The argument of \<open>ResumeSession\<close> comes
  from the caller and is any string, so the path is resolved the way the operating system
  does it, component by component from \<open>Session/Crashed\<close>: an empty component and \<open>.\<close>
  stay where they are (the empty string and \<open>.\<close> denote the crashed partition itself,
  \<open>S/\<close> the directory \<open>S\<close>), \<open>..\<close> goes up, a name goes into the entry of that name, and
  nothing can be entered from a file. Above the partitions is \<open>Session\<close>, from where the
  three partitions are reached under their default names; every other path from there is
  looked up in \<open>Elsewhere\<close>. Everywhere else an identifier is one that the manager made
  or was given as that of a session, and it is taken as the name of the session's
  directory.
\<close>

fun split_path :: "string \<Rightarrow> string list" where
  "split_path [] = [[]]"
| "split_path (c # cs) =
     (if c = CHR ''/'' then [] # split_path cs
      else (case split_path cs of [] \<Rightarrow> [[c]] | p # ps \<Rightarrow> (c # p) # ps))"

text \<open>
  Where a resolution stands: nowhere (\<open>ENOENT\<close>, \<open>ENOTDIR\<close>), on a \<open>state.json\<close> file,
  in a directory (with the directories above it, up to \<open>Session\<close>), or out of the
  partitions.
\<close>

datatype place = Missing | IsFile | InDirs "sdir list" | Outside

definition session_root :: "world \<Rightarrow> sdir" where
  "session_root w =
     SDir None (\<lambda>n. if n = ''Active'' then Some (SDir None (ActiveSessionDir w))
                     else if n = ''Crashed'' then Some (SDir None (CrashSessionDir w))
                     else if n = ''Completed'' then Some (SDir None (CompletedSessionDir w))
                     else None)"

fun enter :: "place \<Rightarrow> string \<Rightarrow> place" where
  "enter Missing c = Missing"
| "enter IsFile c = Missing"
| "enter Outside c = Outside"
| "enter (InDirs []) c = Outside"
| "enter (InDirs (d # up)) c =
     (if c = [] \<or> c = ''.'' then InDirs (d # up)
      else if c = ''..'' then (if up = [] then Outside else InDirs up)
      else (case subdirs d c of
              Some e \<Rightarrow> InDirs (e # d # up)
            | None \<Rightarrow>
                if up = [] then Outside
                else if c = ''state.json'' \<and> state_json d \<noteq> None then IsFile
                else Missing))"

text \<open>
  The directory at the path, \<open>None\<close> when \<open>os.path.exists\<close> is false. A file counts as a
  directory without a \<open>state.json\<close>, which is all that is asked of it afterwards.
\<close>

definition crashed_path :: "world \<Rightarrow> string \<Rightarrow> sdir option" where
  "crashed_path w Name =
     (case foldl enter (InDirs [SDir None (CrashSessionDir w), session_root w])
             (split_path Name) of
        Missing \<Rightarrow> None
      | IsFile \<Rightarrow> Some (SDir None Map.empty)
      | InDirs ds \<Rightarrow> (case ds of [] \<Rightarrow> None | d # up \<Rightarrow> Some d)
      | Outside \<Rightarrow> Elsewhere w Name)"

text \<open>
  \<open>ResumeSession\<close>: \<open>None\<close> before anything else when nothing is at the path of the
  crashed directory. The two inserts are outside any \<open>try\<close>. The state file is looked for
  at the same path again, after the current session has been ended and the new directory
  made.
\<close>

definition ResumeSession :: "string \<Rightarrow> world \<Rightarrow> (pyexc + string option) \<times> world" where
  "ResumeSession CrashedId w =
     (case crashed_path w CrashedId of
        None \<Rightarrow> (Inr None, w)
      | Some CrashedDir \<Rightarrow>
          (let w0 = end_current ''Ended to resume crashed session'' w;
               (t1, w1) = now w0;
               sid = CrashedId @ ''_resumed_'' @ strftime t1;
               w2 = w1\<lparr>SessionId := Some sid\<rparr>;
               (t2, w3) = now w2;
               StartTime = isoformat t2
           in case insert_Sessions \<lparr>sSessionId = sid, sStartTime = StartTime, sEndTime = None,
                                     sStatus = ''ACTIVE'', sSummary = None\<rparr> w3 of
                Inl e \<Rightarrow> (Inl e, w3)
              | Inr w4 \<Rightarrow>
                  (case insert_SessionRelationships
                          \<lparr>rParentSessionId = CrashedId, rChildSessionId = sid,
                           rRelationType = ''RESUME''\<rparr> w4 of
                     Inl e \<Rightarrow> (Inl e, w4)
                   | Inr w5 \<Rightarrow>
                       (let w6 = CreateLockFile (makedirs_active sid w5);
                            file = (case crashed_path w6 CrashedId of
                                      None \<Rightarrow> None | Some cd \<Rightarrow> state_json cd);
                            w7 = snd (SaveSessionState
                                        (resumed_state file sid StartTime CrashedId) w6);
                            w8 = LogToDatabase ''INFO'' ''SessionManager''
                                   (''Resumed session '' @ CrashedId @ '' as new session '' @ sid)
                                   (Some sid) (Some [(''ResumedFrom'', PStr CrashedId)]) w7
                        in (Inr (Some sid), w8)))))"


section \<open>ActionTracker\<close>

text \<open>
  The mirror of the actions in the session state. \<open>RecordAction\<close> runs
  \<open>if "Actions" not in State: State["Actions"] = []\<close> and
  \<open>State["Actions"].append(Action)\<close> on whatever \<open>LoadSessionState\<close> returned and found
  truthy: on a dictionary whose \<open>Actions\<close> is a list this appends, on anything else one of
  the two statements raises.
\<close>

definition append_action :: "pyval \<Rightarrow> pyval \<Rightarrow> pyexc + pydict" where
  "append_action State Action =
     (case State of
        PDict d \<Rightarrow>
          (let d1 = (if ''Actions'' \<in> set (map fst d) then d else d @ [(''Actions'', PList [])])
           in case map_of d1 ''Actions'' of
                Some (PList xs) \<Rightarrow> Inr (dict_set ''Actions'' (PList (xs @ [Action])) d1)
              | _ \<Rightarrow> Inl (PyExc ''AttributeError'' ''object has no attribute append''))
      | _ \<Rightarrow> Inl (PyExc ''TypeError'' ''object does not support item assignment''))"

text \<open>
  The loop \<open>for Action in State["Actions"]: if Action["ActionId"] == ActionId: ...; break\<close>
  over the items of a list: the first item with the identifier gets the fields and the
  loop stops; an item that is no dictionary, or has no \<open>ActionId\<close>, raises.
\<close>

fun patch_loop :: "string \<Rightarrow> (string \<times> pyval) list \<Rightarrow> pyval list \<Rightarrow> pyexc + pyval list" where
  "patch_loop aid upd [] = Inr []"
| "patch_loop aid upd (x # xs) =
     (case x of
        PDict a \<Rightarrow>
          (case map_of a ''ActionId'' of
             None \<Rightarrow> Inl (PyExc ''KeyError'' ''ActionId'')
           | Some v \<Rightarrow>
               if v = PStr aid
               then Inr (PDict (foldl (\<lambda>acc kv. dict_set (fst kv) (snd kv) acc) a upd) # xs)
               else (case patch_loop aid upd xs of
                       Inl e \<Rightarrow> Inl e
                     | Inr ys \<Rightarrow> Inr (x # ys)))
      | _ \<Rightarrow> Inl (PyExc ''TypeError'' ''indices must be integers''))"

text \<open>
  The same loop over any value: a dictionary or a string iterates over strings, whose
  first item raises at \<open>Action["ActionId"]\<close>; other values are not iterable.
\<close>

definition patch_actions :: "string \<Rightarrow> (string \<times> pyval) list \<Rightarrow> pyval \<Rightarrow> pyexc + pyval" where
  "patch_actions aid upd acts =
     (case acts of
        PList xs \<Rightarrow> (case patch_loop aid upd xs of Inl e \<Rightarrow> Inl e | Inr ys \<Rightarrow> Inr (PList ys))
      | PTuple xs \<Rightarrow> (case patch_loop aid upd xs of Inl e \<Rightarrow> Inl e | Inr ys \<Rightarrow> Inr (PTuple ys))
      | PDict d \<Rightarrow> (if d = [] then Inr acts
                    else Inl (PyExc ''TypeError'' ''string indices must be integers''))
      | PStr s \<Rightarrow> (if s = [] then Inr acts
                   else Inl (PyExc ''TypeError'' ''string indices must be integers''))
      | _ \<Rightarrow> Inl (PyExc ''TypeError'' ''object is not iterable''))"

text \<open>
  \<open>if State and "Actions" in State:\<close> followed by the loop. The result is the state to
  save, \<open>None\<close> when the block is skipped, or the exception raised on the way.
\<close>

definition patch_state ::
  "string \<Rightarrow> (string \<times> pyval) list \<Rightarrow> pyval \<Rightarrow> pyexc + pydict option" where
  "patch_state aid upd State =
     (if \<not> truthy State then Inr None
      else
        (case State of
           PDict d \<Rightarrow>
             (case map_of d ''Actions'' of
                None \<Rightarrow> Inr None
              | Some acts \<Rightarrow>
                  (case patch_actions aid upd acts of
                     Inl e \<Rightarrow> Inl e
                   | Inr acts' \<Rightarrow> Inr (Some (dict_set ''Actions'' acts' d))))
         | PList xs \<Rightarrow>
             (if PStr ''Actions'' \<in> set xs
              then Inl (PyExc ''TypeError'' ''list indices must be integers'')
              else Inr None)
         | PTuple xs \<Rightarrow>
             (if PStr ''Actions'' \<in> set xs
              then Inl (PyExc ''TypeError'' ''tuple indices must be integers'')
              else Inr None)
         | PStr s \<Rightarrow>
             (if contains_str ''Actions'' s
              then Inl (PyExc ''TypeError'' ''string indices must be integers'')
              else Inr None)
         | _ \<Rightarrow> Inl (PyExc ''TypeError'' ''argument is not iterable'')))"

text \<open>
  \<open>RecordAction\<close>: \<open>None\<close> without a session; every exception after that (the encoding of
  the parameters, the insert, the mirror) is caught and gives \<open>None\<close> as well.
\<close>

definition RecordAction :: "string \<Rightarrow> pydict option \<Rightarrow> world \<Rightarrow> string option \<times> world" where
  "RecordAction ActionType Params w =
     (if \<not> truthy_str (SessionId w) then (None, w)
      else
        (let sid = the (SessionId w);
             (ActionId, w1) = uuid4 w;
             (t, w2) = now w1;
             StartTime = isoformat t
         in case (if truthy_dict Params then json_dumps (opt_dict Params) else Inr PNone) of
              Inl e \<Rightarrow> (None, w2)
            | Inr enc \<Rightarrow>
                (case insert_Actions
                        \<lparr>aActionId = ActionId, aSessionId = sid, aActionType = ActionType,
                         aStartTime = StartTime, aEndTime = None, aStatus = ''STARTED'',
                         aParams = (if truthy_dict Params then Some enc else None),
                         aResult = None\<rparr> w2 of
                   Inl e \<Rightarrow> (None, w2)
                 | Inr w3 \<Rightarrow>
                     (let State = LoadSessionState w3;
                          Action = PDict [(''ActionId'', PStr ActionId),
                                          (''ActionType'', PStr ActionType),
                                          (''StartTime'', PStr StartTime),
                                          (''Status'', PStr ''STARTED''),
                                          (''Params'', opt_dict Params),
                                          (''Result'', PNone)];
                          Log = LogToDatabase ''INFO'' ''ActionTracker''
                                  (''Action '' @ ActionType @ '' started'') (Some sid)
                                  (Some [(''ActionId'', PStr ActionId), (''Params'', opt_dict Params)])
                      in if truthy State
                         then (case append_action State Action of
                                 Inl e \<Rightarrow> (None, w3)
                               | Inr State1 \<Rightarrow> (Some ActionId, Log (snd (SaveSessionState State1 w3))))
                         else (Some ActionId, Log w3)))))"

text \<open>\<open>UPDATE Actions SET EndTime = ?, Status = ?, Result = ? WHERE ActionId = ?\<close>.\<close>

definition update_Actions ::
  "string \<Rightarrow> string \<Rightarrow> string \<Rightarrow> pyval option \<Rightarrow> world \<Rightarrow> world" where
  "update_Actions ActionId EndTime Status Result w =
     w\<lparr>Actions := map (\<lambda>r. if aActionId r = ActionId
                            then r\<lparr>aEndTime := Some EndTime, aStatus := Status, aResult := Result\<rparr>
                            else r) (Actions w)\<rparr>"

text \<open>
  \<open>CompleteAction\<close>: \<open>False\<close> without a session or when the result cannot be encoded
  (before the update); the update is not conditioned on the stored status; an exception
  in the mirror gives \<open>False\<close> after the update.
\<close>

definition CompleteAction :: "string \<Rightarrow> pyval \<Rightarrow> string \<Rightarrow> world \<Rightarrow> bool \<times> world" where
  "CompleteAction ActionId Result Status w =
     (if \<not> truthy_str (SessionId w) then (False, w)
      else
        (let sid = the (SessionId w);
             (t, w1) = now w;
             EndTime = isoformat t
         in case (if Result \<noteq> PNone then json_dumps Result else Inr PNone) of
              Inl e \<Rightarrow> (False, w1)
            | Inr enc \<Rightarrow>
                (let w2 = update_Actions ActionId EndTime Status
                            (if Result \<noteq> PNone then Some enc else None) w1;
                     Log = LogToDatabase ''INFO'' ''ActionTracker''
                             (''Action '' @ ActionId @ '' completed with status '' @ Status)
                             (Some sid) (Some [(''Result'', Result)])
                 in case patch_state ActionId
                           [(''EndTime'', PStr EndTime), (''Status'', PStr Status),
                            (''Result'', Result)] (LoadSessionState w2) of
                      Inl e \<Rightarrow> (False, w2)
                    | Inr None \<Rightarrow> (True, Log w2)
                    | Inr (Some State1) \<Rightarrow> (True, Log (snd (SaveSessionState State1 w2))))))"

text \<open>
  \<open>ExecuteAction\<close>. The function is any callable: it receives the parameters as
  keyword arguments (none when they are falsy), runs on the state that \<open>RecordAction\<close>
  left, where it may call the manager and the tracker itself, and either returns a value
  or raises an \<open>Exception\<close>; the state it leaves is the one \<open>CompleteAction\<close> works on.
  The value that \<open>CompleteAction\<close> returns is not looked at.
\<close>

definition ExecuteAction ::
  "string \<Rightarrow> (pydict \<Rightarrow> world \<Rightarrow> (pyexc + pyval) \<times> world) \<Rightarrow> pydict option \<Rightarrow> world
     \<Rightarrow> (bool \<times> pyval \<times> string option) \<times> world" where
  "ExecuteAction ActionType ActionFunction Params w =
     (case RecordAction ActionType Params w of
        (None, w1) \<Rightarrow> ((False, PDict [(''Error'', PStr ''Failed to record action'')], None), w1)
      | (Some ActionId, w1) \<Rightarrow>
          if ActionId = []
          then ((False, PDict [(''Error'', PStr ''Failed to record action'')], None), w1)
          else
            (case ActionFunction (if truthy_dict Params then the Params else []) w1 of
               (Inr Result, w2) \<Rightarrow>
                 ((True, Result, Some ActionId),
                  snd (CompleteAction ActionId Result ''COMPLETED'' w2))
             | (Inl e, w2) \<Rightarrow>
                 (let ErrorDetails = PDict [(''Error'', PStr (emsg e)),
                                            (''ErrorType'', PStr (etype e))]
                  in ((False, ErrorDetails, Some ActionId),
                      snd (CompleteAction ActionId ErrorDetails ''FAILED'' w2)))))"


text \<open>
  \<open>GetPendingActions\<close>: the rows selected by
  \<open>WHERE SessionId = ? AND Status = 'STARTED' ORDER BY StartTime ASC\<close>, with the five
  columns of the query; the session is the argument when it is truthy, else the current
  one, and without either the result is empty.
\<close>

record pending_row =
  pActionId :: string
  pActionType :: string
  pStartTime :: string
  pStatus :: string
  pParams :: "pyval option"

definition pending_of :: "action_row \<Rightarrow> pending_row" where
  "pending_of r = \<lparr>pActionId = aActionId r, pActionType = aActionType r,
                   pStartTime = aStartTime r, pStatus = aStatus r, pParams = aParams r\<rparr>"

definition GetPendingActions :: "string option \<Rightarrow> world \<Rightarrow> pending_row list" where
  "GetPendingActions SessionIdArg w =
     (if \<not> truthy_str SessionIdArg \<and> \<not> truthy_str (SessionId w) then []
      else
        (let TargetSessionId = (if truthy_str SessionIdArg then the SessionIdArg
                                else the (SessionId w))
         in map pending_of
              (sort_key aStartTime
                 (filter (\<lambda>r. aSessionId r = TargetSessionId \<and> aStatus r = ''STARTED'')
                         (Actions w)))))"

text \<open>
  \<open>CancelAction\<close>: \<open>False\<close> without a session, without a row, or when the stored status of
  the first row is not \<open>STARTED\<close>; nothing is written before these checks.
\<close>

definition CancelAction :: "string \<Rightarrow> world \<Rightarrow> bool \<times> world" where
  "CancelAction ActionId w =
     (if \<not> truthy_str (SessionId w) then (False, w)
      else
        (case filter (\<lambda>r. aActionId r = ActionId) (Actions w) of
           [] \<Rightarrow> (False, w)
         | a # rest \<Rightarrow>
             if aStatus a \<noteq> ''STARTED'' then (False, w)
             else
               (let sid = the (SessionId w);
                    (t, w1) = now w;
                    EndTime = isoformat t;
                    Reason = PDict [(''Reason'', PStr ''Canceled by user'')];
                    w2 = update_Actions ActionId EndTime ''CANCELED'' (Some Reason) w1;
                    Log = LogToDatabase ''INFO'' ''ActionTracker''
                            (''Action '' @ ActionId @ '' canceled'') (Some sid) None
                in case patch_state ActionId
                          [(''EndTime'', PStr EndTime), (''Status'', PStr ''CANCELED''),
                           (''Result'', Reason)] (LoadSessionState w2) of
                     Inl e \<Rightarrow> (False, w2)
                   | Inr None \<Rightarrow> (True, Log w2)
                   | Inr (Some State1) \<Rightarrow> (True, Log (snd (SaveSessionState State1 w2))))))"


section \<open>Example states\<close>

text \<open>
  A clock that stays within one second (only the microseconds advance), a fresh
  installation, and the state in which a process that started one session and then
  died has left the store and the disk.
\<close>

definition ex_clock :: "nat \<Rightarrow> datetime" where
  "ex_clock n = \<lparr>year = 2025, month = 3, day = 18, hour = 19, minute = 0, second = 0,
                  microsecond = n\<rparr>"

definition ex_uuids :: "nat \<Rightarrow> string" where
  "ex_uuids n = ''uuid-'' @ zpad4 n"

definition ex_fresh :: world where
  "ex_fresh = \<lparr>SessionId = None, LockFile = None, ActiveSessionDir = Map.empty,
     CrashSessionDir = Map.empty, CompletedSessionDir = Map.empty, Sessions = [], Actions = [],
     StateSnapshots = [], SessionRelationships = [], SystemLogs = [],
     Clock = ex_clock, Ticks = 0, Uuids = ex_uuids, Drawn = 0, Elsewhere = Map.empty\<rparr>"

definition ex_sid :: string where
  "ex_sid = ''20250318190000''"

definition ex_dir :: sdir where
  "ex_dir = SDir (Some (Json (PDict
       [(''SessionId'', PStr ex_sid), (''StartTime'', PStr ''2025-03-18T19:00:00.000001''),
        (''Messages'', PList []), (''Context'', PDict []),
        (''LastModified'', PStr ''2025-03-18T19:00:00.000002'')]))) Map.empty"

definition ex_running :: world where
  "ex_running = ex_fresh
     \<lparr>SessionId := Some ex_sid, LockFile := Some ex_sid,
      ActiveSessionDir := [ex_sid \<mapsto> ex_dir],
      Sessions := [\<lparr>sSessionId = ex_sid, sStartTime = ''2025-03-18T19:00:00.000001'',
                    sEndTime = None, sStatus = ''ACTIVE'', sSummary = None\<rparr>],
      Ticks := 4, Drawn := 1\<rparr>"

definition ex_actions :: "action_row list" where
  "ex_actions =
     [\<lparr>aActionId = ''a1'', aSessionId = ex_sid, aActionType = ''BUILD'',
       aStartTime = ''2025-03-18T19:00:02'', aEndTime = None, aStatus = ''STARTED'',
       aParams = Some (PDict [(''target'', PStr ''x'')]), aResult = None\<rparr>,
      \<lparr>aActionId = ''a2'', aSessionId = ex_sid, aActionType = ''TEST'',
       aStartTime = ''2025-03-18T19:00:03'', aEndTime = Some ''2025-03-18T19:00:04'',
       aStatus = ''COMPLETED'', aParams = None, aResult = Some (PBool True)\<rparr>,
      \<lparr>aActionId = ''a3'', aSessionId = ex_sid, aActionType = ''LINT'',
       aStartTime = ''2025-03-18T19:00:01'', aEndTime = None, aStatus = ''STARTED'',
       aParams = None, aResult = None\<rparr>,
      \<lparr>aActionId = ''a4'', aSessionId = ''other'', aActionType = ''BUILD'',
       aStartTime = ''2025-03-18T19:00:00'', aEndTime = None, aStatus = ''STARTED'',
       aParams = None, aResult = None\<rparr>]"

text \<open>
  Two states of a partial recovery or a partial \<open>EndSession\<close>: the row already
  \<open>COMPLETED\<close> with the directory still active, and the directory already moved with the
  lock file still there.
\<close>

definition ex_half_ended :: world where
  "ex_half_ended = ex_running
     \<lparr>Sessions := [\<lparr>sSessionId = ex_sid, sStartTime = ''2025-03-18T19:00:00.000001'',
                    sEndTime = Some ''2025-03-18T19:00:00.000004'', sStatus = ''COMPLETED'',
                    sSummary = None\<rparr>], Ticks := 5\<rparr>"

definition ex_moved :: world where
  "ex_moved = ex_running\<lparr>ActiveSessionDir := Map.empty, CrashSessionDir := [ex_sid \<mapsto> ex_dir]\<rparr>"

text \<open>
  Conditions under which \<open>RecordAction\<close> gets through: the state file of the current
  session is missing, unreadable or falsy, or it is a dictionary whose \<open>Actions\<close> entry, if
  there is one, is a list (\<open>mirror_ok\<close>); the parameters, when truthy, can be encoded
  (\<open>params_ok\<close>). \<open>new_action_row\<close> is the row that \<open>RecordAction\<close> inserts.
\<close>

definition mirror_ok :: "world \<Rightarrow> bool" where
  "mirror_ok w =
     (case LoadSessionState w of
        PDict d \<Rightarrow> (case map_of d ''Actions'' of
                      None \<Rightarrow> True | Some (PList xs) \<Rightarrow> True | Some v \<Rightarrow> False)
      | v \<Rightarrow> \<not> truthy v)"


definition params_ok :: "pydict option \<Rightarrow> bool" where
  "params_ok Params = (truthy_dict Params \<longrightarrow> serialisable (opt_dict Params))"

definition new_action_row :: "string \<Rightarrow> pydict option \<Rightarrow> world \<Rightarrow> action_row" where
  "new_action_row ActionType Params w =
     \<lparr>aActionId = Uuids w (Drawn w), aSessionId = the (SessionId w), aActionType = ActionType,
      aStartTime = isoformat (Clock w (Ticks w)), aEndTime = None, aStatus = ''STARTED'',
      aParams = (if truthy_dict Params then Some (json_loads_dumps (opt_dict Params)) else None),
      aResult = None\<rparr>"

text \<open>
  The state mirror as \<open>RecordAction\<close> builds it: no state, or a dictionary whose \<open>Actions\<close>
  entry, if there is one, is a list of dictionaries that each have an \<open>ActionId\<close>. On such
  a state the loops of \<open>CompleteAction\<close> and \<open>CancelAction\<close> do not raise.
\<close>

definition item_ok :: "pyval \<Rightarrow> bool" where
  "item_ok x = (case x of PDict a \<Rightarrow> map_of a ''ActionId'' \<noteq> None | v \<Rightarrow> False)"

definition mirror_wf :: "pyval \<Rightarrow> bool" where
  "mirror_wf State =
     (case State of
        PDict d \<Rightarrow> (case map_of d ''Actions'' of
                      None \<Rightarrow> True | Some (PList xs) \<Rightarrow> list_all item_ok xs | Some v \<Rightarrow> False)
      | v \<Rightarrow> \<not> truthy v)"

text \<open>
  A call sequence in the running session: an action is recorded, canceled, and then
  completed.
\<close>

definition ex_recorded :: world where
  "ex_recorded = snd (RecordAction ''BUILD'' None ex_running)"

definition ex_canceled :: world where
  "ex_canceled = snd (CancelAction ''uuid-0001'' ex_recorded)"

definition ex_completed :: world where
  "ex_completed = snd (CompleteAction ''uuid-0001'' (PDict [(''ok'', PBool True)]) ''COMPLETED''
                         ex_canceled)"

text \<open>
  A string that names an entry of a directory: not empty, without a slash, and neither
  \<open>.\<close> nor \<open>..\<close>. The identifiers that the code makes itself are of this kind.
\<close>

definition plain_name :: "string \<Rightarrow> bool" where
  "plain_name s = (s \<noteq> [] \<and> CHR ''/'' \<notin> set s \<and> s \<noteq> ''.'' \<and> s \<noteq> ''..'')"

text \<open>
  The identifiers that \<open>ResumeSession\<close> and \<open>StartSession\<close> compute: the clock is read
  after the current session, if any, has been ended.
\<close>

definition resume_id :: "string \<Rightarrow> world \<Rightarrow> string" where
  "resume_id CrashedId w =
     CrashedId @ ''_resumed_'' @
       strftime (fst (now (end_current ''Ended to resume crashed session'' w)))"

definition start_id :: "world \<Rightarrow> string" where
  "start_id w = strftime (fst (now (end_current ''Ended to start new session'' w)))"

text \<open>
  The state after a crash scan: the session is \<open>CRASHED\<close>, its directory is under the
  crashed partition, and its \<open>state.json\<close> was cut off in the middle of a write.
\<close>

definition ex_crashed :: world where
  "ex_crashed = ex_fresh
     \<lparr>CrashSessionDir := [ex_sid \<mapsto> SDir (Some (Malformed ''{SessionId: 2025'')) Map.empty],
      Sessions := [\<lparr>sSessionId = ex_sid, sStartTime = ''2025-03-18T19:00:00.000001'',
                    sEndTime = None, sStatus = ''CRASHED'', sSummary = None\<rparr>],
      Ticks := 4, Drawn := 1\<rparr>"

text \<open>
  Calls into the manager and the tracker, and the state a sequence of them leaves. A
  call that raises leaves the state it had reached; \<open>CallRestart\<close> is a new process
  constructing its manager on the same store and disk. The function of a
  \<open>CallExecuteAction\<close> computes its result from its arguments and leaves the state alone.
\<close>

datatype call =
    CallStartSession
  | CallEndSession "string option"
  | CallResumeSession string
  | CallRecordAction string "pydict option"
  | CallCompleteAction string pyval string
  | CallCancelAction string
  | CallExecuteAction string "pydict \<Rightarrow> pyexc + pyval" "pydict option"
  | CallRestart

fun step :: "call \<Rightarrow> world \<Rightarrow> world" where
  "step CallStartSession w = snd (StartSession w)"
| "step (CallEndSession Summary) w = snd (EndSession Summary w)"
| "step (CallResumeSession sid) w = snd (ResumeSession sid w)"
| "step (CallRecordAction ActionType Params) w = snd (RecordAction ActionType Params w)"
| "step (CallCompleteAction ActionId Result Status) w =
     snd (CompleteAction ActionId Result Status w)"
| "step (CallCancelAction ActionId) w = snd (CancelAction ActionId w)"
| "step (CallExecuteAction ActionType ActionFunction Params) w =
     snd (ExecuteAction ActionType (\<lambda>kw v. (ActionFunction kw, v)) Params w)"
| "step CallRestart w =
     (case SessionManager_init w of Inl e \<Rightarrow> w\<lparr>SessionId := None\<rparr> | Inr w' \<Rightarrow> w')"

definition run :: "call list \<Rightarrow> world \<Rightarrow> world" where
  "run cs w = foldl (\<lambda>v c. step c v) w cs"

text \<open>A clock whose first reading is in one second and all later ones in the next.\<close>

definition ex_clock_two :: "nat \<Rightarrow> datetime" where
  "ex_clock_two n = \<lparr>year = 2025, month = 3, day = 18, hour = 19, minute = 0,
                      second = (if n = 0 then 0 else 1), microsecond = 0\<rparr>"

definition ex_fresh_two :: world where
  "ex_fresh_two = ex_fresh\<lparr>Clock := ex_clock_two\<rparr>"

section \<open>What each operation leaves alone\<close>

lemma LogToDatabase_frame [simp]:
  "SessionId (LogToDatabase l c m s a w) = SessionId w"
  "LockFile (LogToDatabase l c m s a w) = LockFile w"
  "ActiveSessionDir (LogToDatabase l c m s a w) = ActiveSessionDir w"
  "CrashSessionDir (LogToDatabase l c m s a w) = CrashSessionDir w"
  "CompletedSessionDir (LogToDatabase l c m s a w) = CompletedSessionDir w"
  "Sessions (LogToDatabase l c m s a w) = Sessions w"
  "Actions (LogToDatabase l c m s a w) = Actions w"
  "StateSnapshots (LogToDatabase l c m s a w) = StateSnapshots w"
  "SessionRelationships (LogToDatabase l c m s a w) = SessionRelationships w"
  "Clock (LogToDatabase l c m s a w) = Clock w"
  "Uuids (LogToDatabase l c m s a w) = Uuids w"
  "Drawn (LogToDatabase l c m s a w) = Drawn w"
  "Ticks (LogToDatabase l c m s a w) = Suc (Ticks w)"
  by (simp_all add: LogToDatabase_def now_def Let_def)

lemma has_session_upd [simp]:
  "has_session x (w\<lparr>SessionId := a\<rparr>) = has_session x w"
  "has_session x (w\<lparr>LockFile := b\<rparr>) = has_session x w"
  "has_session x (w\<lparr>ActiveSessionDir := c\<rparr>) = has_session x w"
  "has_session x (w\<lparr>CrashSessionDir := c\<rparr>) = has_session x w"
  "has_session x (w\<lparr>CompletedSessionDir := c\<rparr>) = has_session x w"
  "has_session x (w\<lparr>Ticks := n\<rparr>) = has_session x w"
  "has_session x (w\<lparr>Drawn := n\<rparr>) = has_session x w"
  "has_session x (w\<lparr>Actions := acts\<rparr>) = has_session x w"
  "has_session x (w\<lparr>StateSnapshots := sn\<rparr>) = has_session x w"
  "has_session x (w\<lparr>SessionRelationships := rl\<rparr>) = has_session x w"
  "has_session x (w\<lparr>SystemLogs := lg\<rparr>) = has_session x w"
  by (simp_all add: has_session_def)

lemma has_session_LogToDatabase [simp]:
  "has_session x (LogToDatabase l c m s a w) = has_session x w"
  by (simp add: has_session_def)

lemma SaveSessionState_frame [simp]:
  "SessionId (snd (SaveSessionState st w)) = SessionId w"
  "LockFile (snd (SaveSessionState st w)) = LockFile w"
  "CrashSessionDir (snd (SaveSessionState st w)) = CrashSessionDir w"
  "CompletedSessionDir (snd (SaveSessionState st w)) = CompletedSessionDir w"
  "Sessions (snd (SaveSessionState st w)) = Sessions w"
  "Actions (snd (SaveSessionState st w)) = Actions w"
  "SessionRelationships (snd (SaveSessionState st w)) = SessionRelationships w"
  "SystemLogs (snd (SaveSessionState st w)) = SystemLogs w"
  "Clock (snd (SaveSessionState st w)) = Clock w"
  "Uuids (snd (SaveSessionState st w)) = Uuids w"
  by (simp_all add: SaveSessionState_def now_def uuid4_def insert_StateSnapshots_def Let_def
        split: option.splits)

lemma has_session_SaveSessionState [simp]:
  "has_session x (snd (SaveSessionState st w)) = has_session x w"
  by (simp add: has_session_def)

lemma SaveSessionState_active:
  "ActiveSessionDir (snd (SaveSessionState st w)) x =
     (if truthy_str (SessionId w) \<and> x = the (SessionId w) then
        (case ActiveSessionDir w x of None \<Rightarrow> None
         | Some d \<Rightarrow> Some (SDir (Some (dump_file (PDict (dict_set ''LastModified''
                        (PStr (isoformat (Clock w (Ticks w)))) st)))) (subdirs d)))
      else ActiveSessionDir w x)"
  by (simp add: SaveSessionState_def now_def uuid4_def insert_StateSnapshots_def Let_def
        split: option.splits)

lemma EndSession_finish_frame [simp]:
  "SessionId (snd (EndSession_finish sid s w)) = None"
  "LockFile (snd (EndSession_finish sid s w)) = None"
  "ActiveSessionDir (snd (EndSession_finish sid s w)) = ActiveSessionDir w"
  "CrashSessionDir (snd (EndSession_finish sid s w)) = CrashSessionDir w"
  "CompletedSessionDir (snd (EndSession_finish sid s w)) = CompletedSessionDir w"
  "Sessions (snd (EndSession_finish sid s w)) = Sessions w"
  "Actions (snd (EndSession_finish sid s w)) = Actions w"
  "StateSnapshots (snd (EndSession_finish sid s w)) = StateSnapshots w"
  "SessionRelationships (snd (EndSession_finish sid s w)) = SessionRelationships w"
  "Clock (snd (EndSession_finish sid s w)) = Clock w"
  "Uuids (snd (EndSession_finish sid s w)) = Uuids w"
  "Drawn (snd (EndSession_finish sid s w)) = Drawn w"
  "fst (EndSession_finish sid s w) = True"
  by (simp_all add: EndSession_finish_def Let_def)

lemma EndSession_frame [simp]:
  "CrashSessionDir (snd (EndSession s w)) = CrashSessionDir w"
  "Actions (snd (EndSession s w)) = Actions w"
  "StateSnapshots (snd (EndSession s w)) = StateSnapshots w"
  "SessionRelationships (snd (EndSession s w)) = SessionRelationships w"
  "Clock (snd (EndSession s w)) = Clock w"
  "Uuids (snd (EndSession s w)) = Uuids w"
  "Drawn (snd (EndSession s w)) = Drawn w"
  "map sSessionId (Sessions (snd (EndSession s w))) = map sSessionId (Sessions w)"
  by (simp_all add: EndSession_def now_def Let_def comp_def
        split: option.splits sum.splits cong: map_cong)

lemma has_session_EndSession [simp]:
  "has_session x (snd (EndSession s w)) = has_session x w"
  by (simp add: has_session_def)

lemma EndSession_True_SessionId:
  "fst (EndSession s w) \<Longrightarrow> SessionId (snd (EndSession s w)) = None"
  by (simp add: EndSession_def now_def Let_def split: option.splits sum.splits if_splits)

lemma EndSession_succeeds:
  assumes "truthy_str (SessionId w)"
    and "CompletedSessionDir w (the (SessionId w)) = None"
  shows "fst (EndSession s w)"
  using assms
  by (simp add: EndSession_def now_def Let_def shutil_move_def split: option.splits)

lemma map_status_rows:
  assumes "r \<in> set (map (\<lambda>r. if sSessionId r = sid then r\<lparr>sStatus := st\<rparr> else r) xs)"
    and "sSessionId r = sid"
  shows "sStatus r = st"
proof -
  from assms(1) obtain x where x: "r = (if sSessionId x = sid then x\<lparr>sStatus := st\<rparr> else x)"
    by (auto simp only: set_map image_iff)
  show ?thesis
  proof (cases "sSessionId x = sid")
    case True
    with x show ?thesis by simp
  next
    case False
    with x assms(2) show ?thesis by simp
  qed
qed

lemma UpdateSessionStatus_Sessions:
  "Sessions (snd (UpdateSessionStatus sid st w)) =
     map (\<lambda>r. if sSessionId r = sid then r\<lparr>sStatus := st\<rparr> else r) (Sessions w)"
  by (simp add: UpdateSessionStatus_def)

lemma UpdateSessionStatus_rows:
  "r \<in> set (Sessions (snd (UpdateSessionStatus sid st w))) \<Longrightarrow> sSessionId r = sid
     \<Longrightarrow> sStatus r = st"
  unfolding UpdateSessionStatus_Sessions by (rule map_status_rows)

lemma UpdateSessionStatus_frame [simp]:
  "SessionId (snd (UpdateSessionStatus sid st w)) = SessionId w"
  "LockFile (snd (UpdateSessionStatus sid st w)) = LockFile w"
  "ActiveSessionDir (snd (UpdateSessionStatus sid st w)) = ActiveSessionDir w"
  "CrashSessionDir (snd (UpdateSessionStatus sid st w)) = CrashSessionDir w"
  "CompletedSessionDir (snd (UpdateSessionStatus sid st w)) = CompletedSessionDir w"
  "Actions (snd (UpdateSessionStatus sid st w)) = Actions w"
  "map sSessionId (Sessions (snd (UpdateSessionStatus sid st w))) = map sSessionId (Sessions w)"
  by (simp_all add: UpdateSessionStatus_def comp_def cong: map_cong)

lemma has_session_UpdateSessionStatus [simp]:
  "has_session x (snd (UpdateSessionStatus sid st w)) = has_session x w"
  by (simp add: has_session_def)

lemma shutil_move_free:
  assumes "\<And>inner. dst name = Some inner \<Longrightarrow> subdirs inner name = None"
  obtains c where "shutil_move name d dst = Inr c" "c name \<noteq> None"
    "dst name = None \<Longrightarrow> c name = Some d" "\<And>x. x \<noteq> name \<Longrightarrow> c x = dst x"
proof (cases "dst name")
  case None
  then show ?thesis by (intro that[of "dst(name \<mapsto> d)"]) (simp_all add: shutil_move_def)
next
  case (Some inner)
  with assms have "subdirs inner name = None" by simp
  with Some show ?thesis
    by (intro that[of "dst(name \<mapsto> SDir (state_json inner) ((subdirs inner)(name \<mapsto> d)))"])
       (simp_all add: shutil_move_def)
qed

lemma CheckForCrashedSessions_moves:
  assumes "LockFile w = Some lock" "strip lock = S" "S \<noteq> []" "ActiveSessionDir w S = Some d"
    and "shutil_move S d (CrashSessionDir w) = Inr c"
  shows "CheckForCrashedSessions w =
             Inr ((snd (UpdateSessionStatus S ''CRASHED''
                    (w\<lparr>ActiveSessionDir := (ActiveSessionDir w)(S := None), CrashSessionDir := c\<rparr>)))
                  \<lparr>LockFile := None\<rparr>)"
  using assms by (simp add: CheckForCrashedSessions_def Let_def)

lemma strip_ex_sid: "strip ex_sid = ex_sid"
  by (simp add: strip_def ex_sid_def is_space_def)

lemma GetPendingActions_Some:
  "sid \<noteq> [] \<Longrightarrow> GetPendingActions (Some sid) w =
     map pending_of (sort_key aStartTime
       (filter (\<lambda>r. aSessionId r = sid \<and> aStatus r = ''STARTED'') (Actions w)))"
  by (simp add: GetPendingActions_def truthy_str_def)

section \<open>Session lifecycle\<close>

text \<open>
  C1 (startup crash detection). A manager is constructed while the lock file holds the
  identifier \<open>S\<close> (surrounding white space is stripped by the scan) and \<open>S\<close> has a directory
  under the active partition. \<open>S\<close> is a session: its identifier is not empty and it has a
  row in the store; and its name is free under the crashed partition, in the sense that
  \<open>shutil.move\<close> finds no \<open>Crashed/S/S\<close> already. Then the construction succeeds, every row
  of \<open>S\<close> has status \<open>CRASHED\<close>, a directory for \<open>S\<close> is under the crashed partition (the
  very directory that was active, when \<open>Crashed/S\<close> did not exist), none is under the
  active one, and the lock file is gone.
\<close>

theorem startup_crash_detection:
  assumes "LockFile w = Some lock" "strip lock = S" "S \<noteq> []" "ActiveSessionDir w S = Some d"
    and "has_session S w"
    and "\<forall>inner. CrashSessionDir w S = Some inner \<longrightarrow> subdirs inner S = None"
  shows "\<exists>w'. SessionManager_init w = Inr w' \<and>
           has_session S w' \<and>
           (\<forall>r \<in> set (Sessions w'). sSessionId r = S \<longrightarrow> sStatus r = ''CRASHED'') \<and>
           CrashSessionDir w' S \<noteq> None \<and>
           (CrashSessionDir w S = None \<longrightarrow> CrashSessionDir w' S = Some d) \<and>
           ActiveSessionDir w' S = None \<and>
           LockFile w' = None"
proof -
  let ?w = "w\<lparr>SessionId := None\<rparr>"
  from assms(6) have free: "\<And>inner. CrashSessionDir w S = Some inner \<Longrightarrow> subdirs inner S = None"
    by simp
  obtain c where
    mv: "shutil_move S d (CrashSessionDir w) = Inr c" and c1: "c S \<noteq> None"
    and c2: "CrashSessionDir w S = None \<longrightarrow> c S = Some d"
    using shutil_move_free[of "CrashSessionDir w" S d, OF free] by metis
  let ?w' = "(snd (UpdateSessionStatus S ''CRASHED''
                    (?w\<lparr>ActiveSessionDir := (ActiveSessionDir ?w)(S := None), CrashSessionDir := c\<rparr>)))
                  \<lparr>LockFile := None\<rparr>"
  have run: "SessionManager_init w = Inr ?w'"
    unfolding SessionManager_init_def
    using assms(1-4) mv by (intro CheckForCrashedSessions_moves[where lock = lock]) simp_all
  have rows: "\<forall>r \<in> set (Sessions ?w'). sSessionId r = S \<longrightarrow> sStatus r = ''CRASHED''"
  proof (intro ballI impI)
    fix r
    assume r: "r \<in> set (Sessions ?w')" and S: "sSessionId r = S"
    from r have "r \<in> set (Sessions (snd (UpdateSessionStatus S ''CRASHED''
                    (?w\<lparr>ActiveSessionDir := (ActiveSessionDir ?w)(S := None), CrashSessionDir := c\<rparr>))))"
      by simp
    then show "sStatus r = ''CRASHED''" using S by (rule UpdateSessionStatus_rows)
  qed
  have h: "has_session S ?w'" using assms(5) by simp
  have k1: "CrashSessionDir ?w' S \<noteq> None" using c1 by simp
  have k2: "CrashSessionDir w S = None \<longrightarrow> CrashSessionDir ?w' S = Some d" using c2 by simp
  have k3: "ActiveSessionDir ?w' S = None" by simp
  have k4: "LockFile ?w' = None" by simp
  show ?thesis
    by (rule exI[of _ ?w']) (intro conjI run h rows k1 k2 k3 k4)
qed

theorem startup_crash_detection_witness:
  "LockFile ex_running = Some ex_sid \<and> ActiveSessionDir ex_running ex_sid = Some ex_dir \<and>
   has_session ex_sid ex_running \<and>
   (\<exists>w'. SessionManager_init ex_running = Inr w' \<and>
           has_session ex_sid w' \<and>
           (\<forall>r \<in> set (Sessions w'). sSessionId r = ex_sid \<longrightarrow> sStatus r = ''CRASHED'') \<and>
           CrashSessionDir w' ex_sid \<noteq> None \<and>
           (CrashSessionDir ex_running ex_sid = None \<longrightarrow> CrashSessionDir w' ex_sid = Some ex_dir) \<and>
           ActiveSessionDir w' ex_sid = None \<and>
           LockFile w' = None)"
proof -
  have h: "LockFile ex_running = Some ex_sid" "ActiveSessionDir ex_running ex_sid = Some ex_dir"
    "has_session ex_sid ex_running" "ex_sid \<noteq> []"
    "\<forall>inner. CrashSessionDir ex_running ex_sid = Some inner \<longrightarrow> subdirs inner ex_sid = None"
    by (simp_all add: ex_running_def ex_fresh_def has_session_def ex_sid_def)
  from startup_crash_detection[OF h(1) strip_ex_sid h(4) h(2) h(3) h(5)] h show ?thesis
    by simp
qed

text \<open>
  C9 (\<open>EndSession\<close> is safe to repeat). \<open>EndSession\<close> returns a pair and has no raising
  branch. Without a current session it returns \<open>False\<close> and changes nothing; and after an
  \<open>EndSession\<close> that returned \<open>True\<close>, the next one returns \<open>False\<close> and changes nothing.
\<close>

theorem EndSession_idempotent_safe:
  "(\<not> truthy_str (SessionId w) \<longrightarrow> EndSession Summary w = (False, w)) \<and>
   (EndSession Summary w = (True, w') \<longrightarrow> EndSession Summary' w' = (False, w'))"
proof (intro conjI impI)
  assume "\<not> truthy_str (SessionId w)"
  then show "EndSession Summary w = (False, w)" by (simp add: EndSession_def)
next
  assume ok: "EndSession Summary w = (True, w')"
  then have "fst (EndSession Summary w)" and w': "w' = snd (EndSession Summary w)" by simp_all
  then have "SessionId w' = None" by (simp add: EndSession_True_SessionId)
  then show "EndSession Summary' w' = (False, w')"
    by (simp add: EndSession_def truthy_str_def)
qed

theorem EndSession_idempotent_safe_witness:
  "\<not> truthy_str (SessionId ex_fresh) \<and> EndSession None ex_fresh = (False, ex_fresh) \<and>
   fst (EndSession (Some ''done'') ex_running) \<and>
   EndSession None (snd (EndSession (Some ''done'') ex_running)) =
     (False, snd (EndSession (Some ''done'') ex_running))"
proof -
  have a: "\<not> truthy_str (SessionId ex_fresh)"
    by (simp add: ex_fresh_def truthy_str_def)
  have b: "fst (EndSession (Some ''done'') ex_running)"
    by (rule EndSession_succeeds) (simp_all add: ex_running_def ex_fresh_def truthy_str_def ex_sid_def)
  then have c: "EndSession (Some ''done'') ex_running =
                  (True, snd (EndSession (Some ''done'') ex_running))"
    by (simp add: prod_eq_iff)
  from EndSession_idempotent_safe[of ex_fresh None] a
  have d: "EndSession None ex_fresh = (False, ex_fresh)" by blast
  from EndSession_idempotent_safe[of ex_running "Some ''done''"
         "snd (EndSession (Some ''done'') ex_running)" None] c
  have e: "EndSession None (snd (EndSession (Some ''done'') ex_running)) =
             (False, snd (EndSession (Some ''done'') ex_running))" by blast
  from a b d e show ?thesis by (intro conjI)
qed

lemma CheckForCrashedSessions_LockFile:
  assumes "CheckForCrashedSessions w = Inr w'"
  shows "LockFile w' = None"
proof (cases "LockFile w")
  case None
  with assms have "w' = w" by (simp add: CheckForCrashedSessions_def)
  with None show ?thesis by simp
next
  case (Some lock)
  show ?thesis
  proof (cases "strip lock = []")
    case True
    show ?thesis
    proof (cases "CrashSessionDir w ''Active''")
      case (Some x)
      with assms \<open>LockFile w = Some lock\<close> True show ?thesis
        by (simp add: CheckForCrashedSessions_def Let_def)
    next
      case None
      with assms \<open>LockFile w = Some lock\<close> True
      have "w' = (snd (UpdateSessionStatus [] ''CRASHED''
                         (w\<lparr>ActiveSessionDir := Map.empty,
                            CrashSessionDir := (CrashSessionDir w)
                              (''Active'' \<mapsto> SDir None (ActiveSessionDir w))\<rparr>)))
                       \<lparr>LockFile := None\<rparr>"
        by (simp add: CheckForCrashedSessions_def Let_def)
      then show ?thesis by simp
    qed
  next
    case False
    show ?thesis
    proof (cases "ActiveSessionDir w (strip lock)")
      case None
      with assms Some False have "w' = w\<lparr>LockFile := None\<rparr>"
        by (simp add: CheckForCrashedSessions_def Let_def)
      then show ?thesis by simp
    next
      case (Some d)
      show ?thesis
      proof (cases "shutil_move (strip lock) d (CrashSessionDir w)")
        case (Inl e)
        with assms \<open>LockFile w = Some lock\<close> False Some show ?thesis
          by (simp add: CheckForCrashedSessions_def Let_def)
      next
        case (Inr c)
        from CheckForCrashedSessions_moves[OF \<open>LockFile w = Some lock\<close> refl False Some Inr] assms
        have "w' = (snd (UpdateSessionStatus (strip lock) ''CRASHED''
                    (w\<lparr>ActiveSessionDir := (ActiveSessionDir w)(strip lock := None),
                       CrashSessionDir := c\<rparr>)))\<lparr>LockFile := None\<rparr>" by simp
        then show ?thesis by simp
      qed
    qed
  qed
qed

lemma CheckForCrashedSessions_rows:
  assumes "LockFile w = Some lock" "strip lock = S" "S \<noteq> []" "ActiveSessionDir w S = Some d"
    and "CheckForCrashedSessions w = Inr w'" "r \<in> set (Sessions w')" "sSessionId r = S"
  shows "sStatus r = ''CRASHED''"
proof (cases "shutil_move S d (CrashSessionDir w)")
  case (Inl e)
  with assms(1-5) show ?thesis by (simp add: CheckForCrashedSessions_def Let_def)
next
  case (Inr c)
  from CheckForCrashedSessions_moves[OF assms(1-4) Inr] assms(5)
  have "w' = (snd (UpdateSessionStatus S ''CRASHED''
                    (w\<lparr>ActiveSessionDir := (ActiveSessionDir w)(S := None), CrashSessionDir := c\<rparr>)))
                  \<lparr>LockFile := None\<rparr>" by simp
  with assms(6) have "r \<in> set (Sessions (snd (UpdateSessionStatus S ''CRASHED''
                    (w\<lparr>ActiveSessionDir := (ActiveSessionDir w)(S := None), CrashSessionDir := c\<rparr>))))"
    by simp
  then show ?thesis using assms(7) by (rule UpdateSessionStatus_rows)
qed

text \<open>
  C6 (what guards the startup scan), as the code has it. The scan tests one thing
  before it reclassifies the session named in the lock file: that the directory exists
  under the active partition. When it does not (it was moved before), the scan deletes
  the lock file and changes nothing else, whatever the status of the row. When it does,
  the rows of the session are set to \<open>CRASHED\<close> whatever their status was: the current
  status is never read. A scan that has returned leaves no lock file, so the next scan
  changes nothing.
\<close>

theorem startup_scan_guards:
  "(LockFile w = Some lock \<and> strip lock \<noteq> [] \<and> ActiveSessionDir w (strip lock) = None \<longrightarrow>
      CheckForCrashedSessions w = Inr (w\<lparr>LockFile := None\<rparr>)) \<and>
   (LockFile w = Some lock \<and> strip lock \<noteq> [] \<and> ActiveSessionDir w (strip lock) \<noteq> None \<and>
    CheckForCrashedSessions w = Inr w' \<longrightarrow>
      (\<forall>r \<in> set (Sessions w'). sSessionId r = strip lock \<longrightarrow> sStatus r = ''CRASHED'')) \<and>
   (CheckForCrashedSessions w = Inr w' \<longrightarrow> CheckForCrashedSessions w' = Inr w')"
proof (intro conjI impI)
  assume "LockFile w = Some lock \<and> strip lock \<noteq> [] \<and> ActiveSessionDir w (strip lock) = None"
  then show "CheckForCrashedSessions w = Inr (w\<lparr>LockFile := None\<rparr>)"
    by (simp add: CheckForCrashedSessions_def Let_def)
next
  assume a: "LockFile w = Some lock \<and> strip lock \<noteq> [] \<and> ActiveSessionDir w (strip lock) \<noteq> None \<and>
    CheckForCrashedSessions w = Inr w'"
  then obtain d where d: "ActiveSessionDir w (strip lock) = Some d" by (cases "ActiveSessionDir w (strip lock)") simp_all
  show "\<forall>r \<in> set (Sessions w'). sSessionId r = strip lock \<longrightarrow> sStatus r = ''CRASHED''"
  proof (intro ballI impI)
    fix r assume "r \<in> set (Sessions w')" "sSessionId r = strip lock"
    with a d show "sStatus r = ''CRASHED''"
      by (intro CheckForCrashedSessions_rows[of w lock "strip lock" d w' r]) simp_all
  qed
next
  assume a: "CheckForCrashedSessions w = Inr w'"
  then have "LockFile w' = None" by (rule CheckForCrashedSessions_LockFile)
  then show "CheckForCrashedSessions w' = Inr w'"
    by (simp add: CheckForCrashedSessions_def)
qed

lemma shutil_move_empty: "shutil_move n d Map.empty = Inr [n \<mapsto> d]"
  by (simp add: shutil_move_def)

lemma ex_half_ended_scan:
  "CheckForCrashedSessions ex_half_ended =
     Inr ((snd (UpdateSessionStatus ex_sid ''CRASHED''
            (ex_half_ended\<lparr>ActiveSessionDir := (ActiveSessionDir ex_half_ended)(ex_sid := None),
                           CrashSessionDir := [ex_sid \<mapsto> ex_dir]\<rparr>)))\<lparr>LockFile := None\<rparr>)"
  by (rule CheckForCrashedSessions_moves[where lock = ex_sid and d = ex_dir])
     (simp_all add: strip_ex_sid ex_half_ended_def ex_running_def ex_fresh_def shutil_move_empty,
      simp add: ex_sid_def)

text \<open>
  The state after \<open>EndSession\<close> has set the row to \<open>COMPLETED\<close> and the process died before
  the directory was moved: the scan turns \<open>COMPLETED\<close> into \<open>CRASHED\<close>.
\<close>

theorem startup_scan_overwrites_status:
  "map sStatus (Sessions ex_half_ended) = [''COMPLETED''] \<and>
   LockFile ex_half_ended = Some ex_sid \<and>
   ActiveSessionDir ex_half_ended ex_sid = Some ex_dir \<and>
   (\<exists>w'. CheckForCrashedSessions ex_half_ended = Inr w' \<and>
         map sSessionId (Sessions w') = [ex_sid] \<and>
         map sStatus (Sessions w') = [''CRASHED''])"
proof -
  have a: "map sStatus (Sessions ex_half_ended) = [''COMPLETED'']"
    "LockFile ex_half_ended = Some ex_sid"
    "ActiveSessionDir ex_half_ended ex_sid = Some ex_dir"
    by (simp_all add: ex_half_ended_def ex_running_def ex_fresh_def)
  have b: "\<exists>w'. CheckForCrashedSessions ex_half_ended = Inr w' \<and>
         map sSessionId (Sessions w') = [ex_sid] \<and>
         map sStatus (Sessions w') = [''CRASHED'']"
    by (rule exI, rule conjI, rule ex_half_ended_scan)
       (simp add: UpdateSessionStatus_Sessions ex_half_ended_def ex_running_def ex_fresh_def)
  from a b show ?thesis by (intro conjI)
qed

theorem startup_scan_guards_witness:
  "LockFile ex_moved = Some ex_sid \<and> ActiveSessionDir ex_moved ex_sid = None \<and>
   CheckForCrashedSessions ex_moved = Inr (ex_moved\<lparr>LockFile := None\<rparr>) \<and>
   CheckForCrashedSessions (ex_moved\<lparr>LockFile := None\<rparr>) = Inr (ex_moved\<lparr>LockFile := None\<rparr>)"
proof -
  have a: "LockFile ex_moved = Some ex_sid" "ActiveSessionDir ex_moved ex_sid = None"
    "strip ex_sid \<noteq> []"
    by (simp_all add: ex_moved_def ex_running_def ex_fresh_def strip_ex_sid, simp add: ex_sid_def)
  from startup_scan_guards[of ex_moved ex_sid "ex_moved\<lparr>LockFile := None\<rparr>"] a
  have b: "CheckForCrashedSessions ex_moved = Inr (ex_moved\<lparr>LockFile := None\<rparr>)"
    by (simp add: strip_ex_sid)
  with startup_scan_guards[of ex_moved ex_sid "ex_moved\<lparr>LockFile := None\<rparr>"]
  have c: "CheckForCrashedSessions (ex_moved\<lparr>LockFile := None\<rparr>) = Inr (ex_moved\<lparr>LockFile := None\<rparr>)"
    by blast
  from a b c show ?thesis by (intro conjI)
qed

section \<open>Action log\<close>

text \<open>
  C7 (\<open>GetPendingActions\<close>). For a session identifier (a non-empty string; an empty
  argument means the current session), the rows returned are, with multiplicity, exactly
  the projections of the rows of \<open>Actions\<close> that belong to the session and have status
  \<open>STARTED\<close>; they come in ascending order of start time; so every returned row has status
  \<open>STARTED\<close>, and a row completed or canceled before the query is not among them.
\<close>

theorem GetPendingActions_filter_order:
  assumes "sid \<noteq> []"
  shows "mset (GetPendingActions (Some sid) w) =
           image_mset pending_of
             (filter_mset (\<lambda>r. aSessionId r = sid \<and> aStatus r = ''STARTED'') (mset (Actions w))) \<and>
         sorted (map pStartTime (GetPendingActions (Some sid) w)) \<and>
         (\<forall>p \<in> set (GetPendingActions (Some sid) w). pStatus p = ''STARTED'')"
proof -
  let ?rows = "sort_key aStartTime
       (filter (\<lambda>r. aSessionId r = sid \<and> aStatus r = ''STARTED'') (Actions w))"
  have eq: "GetPendingActions (Some sid) w = map pending_of ?rows"
    using assms by (rule GetPendingActions_Some)
  have proj: "map pStartTime (map pending_of xs) = map aStartTime xs" for xs
    by (simp add: pending_of_def)
  have a: "mset (GetPendingActions (Some sid) w) =
           image_mset pending_of
             (filter_mset (\<lambda>r. aSessionId r = sid \<and> aStatus r = ''STARTED'') (mset (Actions w)))"
    by (simp add: eq)
  have b: "sorted (map pStartTime (GetPendingActions (Some sid) w))"
    by (simp only: eq proj sorted_sort_key)
  have c: "\<forall>p \<in> set (GetPendingActions (Some sid) w). pStatus p = ''STARTED''"
    by (auto simp: eq pending_of_def)
  from a b c show ?thesis by (intro conjI)
qed

theorem GetPendingActions_filter_order_witness:
  "map pActionId (GetPendingActions (Some ex_sid) (ex_fresh\<lparr>Actions := ex_actions\<rparr>)) =
     [''a3'', ''a1''] \<and>
   map pStatus (GetPendingActions (Some ex_sid) (ex_fresh\<lparr>Actions := ex_actions\<rparr>)) =
     [''STARTED'', ''STARTED''] \<and>
   sorted (map pStartTime (GetPendingActions (Some ex_sid) (ex_fresh\<lparr>Actions := ex_actions\<rparr>)))"
proof -
  have ne: "ex_sid \<noteq> []" by (simp add: ex_sid_def)
  have ids: "map pActionId (GetPendingActions (Some ex_sid) (ex_fresh\<lparr>Actions := ex_actions\<rparr>)) =
     [''a3'', ''a1'']"
    by (simp add: GetPendingActions_def truthy_str_def ex_sid_def ex_actions_def pending_of_def)
  have sts: "map pStatus (GetPendingActions (Some ex_sid) (ex_fresh\<lparr>Actions := ex_actions\<rparr>)) =
     [''STARTED'', ''STARTED'']"
    by (simp add: GetPendingActions_def truthy_str_def ex_sid_def ex_actions_def pending_of_def)
  from GetPendingActions_filter_order[OF ne, of "ex_fresh\<lparr>Actions := ex_actions\<rparr>"]
  have "sorted (map pStartTime (GetPendingActions (Some ex_sid) (ex_fresh\<lparr>Actions := ex_actions\<rparr>)))"
    by (elim conjE)
  with ids sts show ?thesis by (intro conjI)
qed

text \<open>
  C8 (\<open>ExecuteAction\<close> without a session). Without a current session \<open>RecordAction\<close>
  returns no identifier and changes nothing, and \<open>ExecuteAction\<close> returns the failure
  tuple without an action identifier and changes nothing; the result is the same for
  every function, which is not applied on this path.
\<close>

theorem ExecuteAction_no_session:
  "\<not> truthy_str (SessionId w) \<Longrightarrow>
     RecordAction ActionType Params w = (None, w) \<and>
     ExecuteAction ActionType ActionFunction Params w =
       ((False, PDict [(''Error'', PStr ''Failed to record action'')], None), w)"
  by (simp add: ExecuteAction_def RecordAction_def)

theorem ExecuteAction_no_session_witness:
  "\<not> truthy_str (SessionId ex_fresh) \<and>
   RecordAction ''BUILD'' (Some [(''target'', PStr ''x'')]) ex_fresh = (None, ex_fresh) \<and>
   ExecuteAction ''BUILD'' (\<lambda>kw v. (Inr (PDict kw), v)) (Some [(''target'', PStr ''x'')])
     ex_fresh =
     ((False, PDict [(''Error'', PStr ''Failed to record action'')], None), ex_fresh)"
proof -
  have a: "\<not> truthy_str (SessionId ex_fresh)"
    by (simp add: ex_fresh_def truthy_str_def)
  from ExecuteAction_no_session[OF a, of "''BUILD''" "Some [(''target'', PStr ''x'')]"
         "\<lambda>kw v. (Inr (PDict kw), v)"] a
  show ?thesis by (intro conjI) simp_all
qed

lemma LoadSessionState_upd [simp]:
  "LoadSessionState (w\<lparr>Actions := a\<rparr>) = LoadSessionState w"
  "LoadSessionState (w\<lparr>Ticks := n\<rparr>) = LoadSessionState w"
  "LoadSessionState (w\<lparr>Drawn := n\<rparr>) = LoadSessionState w"
  "LoadSessionState (w\<lparr>Sessions := ss\<rparr>) = LoadSessionState w"
  "LoadSessionState (w\<lparr>SystemLogs := lg\<rparr>) = LoadSessionState w"
  "LoadSessionState (w\<lparr>StateSnapshots := sn\<rparr>) = LoadSessionState w"
  "LoadSessionState (w\<lparr>SessionRelationships := rl\<rparr>) = LoadSessionState w"
  "LoadSessionState (w\<lparr>LockFile := lf\<rparr>) = LoadSessionState w"
  by (simp_all add: LoadSessionState_def)

lemma append_action_ok:
  assumes "truthy State"
    and "case State of PDict d \<Rightarrow> (case map_of d ''Actions'' of
                      None \<Rightarrow> True | Some (PList xs) \<Rightarrow> True | Some v \<Rightarrow> False)
         | v \<Rightarrow> \<not> truthy v"
  shows "\<not> isl (append_action State Action)"
proof (cases State)
  case (PDict d)
  show ?thesis
  proof (cases "map_of d ''Actions''")
    case None
    then have "''Actions'' \<notin> set (map fst d)" by (simp add: map_of_eq_None_iff)
    with PDict None show ?thesis by (simp add: append_action_def Let_def map_add_def)
  next
    case (Some v)
    then have "''Actions'' \<in> set (map fst d)"
      by (metis map_of_eq_None_iff option.distinct(1) set_map)
    with PDict Some assms(2) show ?thesis
      by (cases v) (simp_all add: append_action_def Let_def)
  qed
qed (use assms in simp_all)

lemma RecordAction_unfold:
  assumes "truthy_str (SessionId w)" "has_session (the (SessionId w)) w"
    and "Uuids w (Drawn w) \<notin> set (map aActionId (Actions w))"
    and "params_ok Params"
  shows "RecordAction ActionType Params w =
     (let w3 = w\<lparr>Drawn := Suc (Drawn w), Ticks := Suc (Ticks w),
                 Actions := Actions w @ [new_action_row ActionType Params w]\<rparr>;
          State = LoadSessionState w;
          Action = PDict [(''ActionId'', PStr (Uuids w (Drawn w))),
                          (''ActionType'', PStr ActionType),
                          (''StartTime'', PStr (isoformat (Clock w (Ticks w)))),
                          (''Status'', PStr ''STARTED''),
                          (''Params'', opt_dict Params),
                          (''Result'', PNone)];
          Log = LogToDatabase ''INFO'' ''ActionTracker''
                  (''Action '' @ ActionType @ '' started'') (SessionId w)
                  (Some [(''ActionId'', PStr (Uuids w (Drawn w))), (''Params'', opt_dict Params)])
      in if truthy State
         then (case append_action State Action of
                 Inl e \<Rightarrow> (None, w3)
               | Inr State1 \<Rightarrow> (Some (Uuids w (Drawn w)), Log (snd (SaveSessionState State1 w3))))
         else (Some (Uuids w (Drawn w)), Log w3))"
proof -
  from assms(1) obtain sid where sid: "SessionId w = Some sid" "sid \<noteq> []"
    by (cases "SessionId w") (simp_all add: truthy_str_def)
  show ?thesis
  proof (cases "truthy_dict Params")
    case True
    with assms(4) have "serialisable (opt_dict Params)" by (simp add: params_ok_def)
    with True assms(1-3) sid show ?thesis
      by (simp add: RecordAction_def uuid4_def now_def Let_def json_dumps_def insert_Actions_def
            new_action_row_def)
  next
    case False
    with assms(1-3) sid show ?thesis
      by (simp add: RecordAction_def uuid4_def now_def Let_def json_dumps_def insert_Actions_def
            new_action_row_def)
  qed
qed

lemma RecordAction_ok:
  assumes "truthy_str (SessionId w)" "has_session (the (SessionId w)) w"
    and "Uuids w (Drawn w) \<notin> set (map aActionId (Actions w))"
    and "params_ok Params" "mirror_ok w"
  shows "fst (RecordAction ActionType Params w) = Some (Uuids w (Drawn w))"
    and "Actions (snd (RecordAction ActionType Params w)) =
           Actions w @ [new_action_row ActionType Params w]"
    and "SessionId (snd (RecordAction ActionType Params w)) = SessionId w"
    and "Sessions (snd (RecordAction ActionType Params w)) = Sessions w"
    and "Clock (snd (RecordAction ActionType Params w)) = Clock w"
    and "Uuids (snd (RecordAction ActionType Params w)) = Uuids w"
proof -
  note unf = RecordAction_unfold[OF assms(1-4), of ActionType]
  let ?Action = "PDict [(''ActionId'', PStr (Uuids w (Drawn w))),
                          (''ActionType'', PStr ActionType),
                          (''StartTime'', PStr (isoformat (Clock w (Ticks w)))),
                          (''Status'', PStr ''STARTED''),
                          (''Params'', opt_dict Params),
                          (''Result'', PNone)]"
  have all: "fst (RecordAction ActionType Params w) = Some (Uuids w (Drawn w)) \<and>
    Actions (snd (RecordAction ActionType Params w)) =
           Actions w @ [new_action_row ActionType Params w] \<and>
    SessionId (snd (RecordAction ActionType Params w)) = SessionId w \<and>
    Sessions (snd (RecordAction ActionType Params w)) = Sessions w \<and>
    Clock (snd (RecordAction ActionType Params w)) = Clock w \<and>
    Uuids (snd (RecordAction ActionType Params w)) = Uuids w"
  proof (cases "truthy (LoadSessionState w)")
    case False
    then show ?thesis by (simp add: unf Let_def)
  next
    case True
    from assms(5) have "\<not> isl (append_action (LoadSessionState w) ?Action)"
      by (intro append_action_ok[OF True]) (simp add: mirror_ok_def)
    then obtain State1 where "append_action (LoadSessionState w) ?Action = Inr State1"
      by (cases "append_action (LoadSessionState w) ?Action") simp_all
    with True show ?thesis by (simp add: unf Let_def)
  qed
  from all show "fst (RecordAction ActionType Params w) = Some (Uuids w (Drawn w))" by simp
  from all show "Actions (snd (RecordAction ActionType Params w)) =
           Actions w @ [new_action_row ActionType Params w]" by simp
  from all show "SessionId (snd (RecordAction ActionType Params w)) = SessionId w" by simp
  from all show "Sessions (snd (RecordAction ActionType Params w)) = Sessions w" by simp
  from all show "Clock (snd (RecordAction ActionType Params w)) = Clock w" by simp
  from all show "Uuids (snd (RecordAction ActionType Params w)) = Uuids w" by simp
qed

lemma CompleteAction_Actions:
  assumes "truthy_str (SessionId w)" "serialisable Result"
  shows "Actions (snd (CompleteAction aid Result Status w)) =
           map (\<lambda>r. if aActionId r = aid
                     then r\<lparr>aEndTime := Some (isoformat (Clock w (Ticks w))), aStatus := Status,
                            aResult := (if Result \<noteq> PNone then Some (json_loads_dumps Result)
                                        else None)\<rparr>
                     else r) (Actions w)"
  using assms
  by (simp add: CompleteAction_def now_def Let_def json_dumps_def update_Actions_def
        split: sum.splits option.splits)







lemma RecordAction_CompletedSessionDir [simp]:
  "CompletedSessionDir (snd (RecordAction t p w)) = CompletedSessionDir w"
  by (simp add: RecordAction_def Let_def now_def uuid4_def insert_Actions_def
        split: sum.splits option.splits)




lemma ex_running_facts:
  "truthy_str (SessionId ex_running)"
  "SessionId ex_running = Some ex_sid"
  "has_session (the (SessionId ex_running)) ex_running"
  "Uuids ex_running (Drawn ex_running) = ''uuid-0001''"
  "Actions ex_running = []"
  by (simp_all add: ex_running_def ex_fresh_def truthy_str_def has_session_def ex_sid_def
        ex_uuids_def zpad4_def digit_def)




lemma map_of_dict_set:
  "map_of (dict_set k v d) k' = (if k' = k then Some v else map_of d k')"
  by (induction d) auto

lemma map_of_foldl_dict_set:
  "k \<notin> fst ` set upd \<Longrightarrow>
     map_of (foldl (\<lambda>acc kv. dict_set (fst kv) (snd kv) acc) a upd) k = map_of a k"
  by (induction upd arbitrary: a) (auto simp: map_of_dict_set)

lemma item_ok_updated:
  assumes "map_of a ''ActionId'' \<noteq> None" "''ActionId'' \<notin> fst ` set upd"
  shows "item_ok (PDict (foldl (\<lambda>acc kv. dict_set (fst kv) (snd kv) acc) a upd))"
  using assms by (simp add: item_ok_def map_of_foldl_dict_set)

lemma patch_loop_ok:
  assumes "list_all item_ok xs" "''ActionId'' \<notin> fst ` set upd"
  shows "\<exists>ys. patch_loop aid upd xs = Inr ys \<and> list_all item_ok ys"
  using assms(1)
proof (induction xs)
  case Nil
  show ?case by simp
next
  case (Cons x xs)
  then obtain a v where x: "x = PDict a" and v: "map_of a ''ActionId'' = Some v"
    by (cases x) (auto simp: item_ok_def)
  from Cons obtain ys where ys: "patch_loop aid upd xs = Inr ys" "list_all item_ok ys"
    by auto
  show ?case
  proof (cases "v = PStr aid")
    case True
    have "item_ok (PDict (foldl (\<lambda>acc kv. dict_set (fst kv) (snd kv) acc) a upd))"
      using v assms(2) by (intro item_ok_updated) simp_all
    with True x v Cons.prems show ?thesis by simp
  next
    case False
    with x v ys Cons.prems show ?thesis by simp
  qed
qed

lemma patch_state_ok:
  assumes "mirror_wf State" "''ActionId'' \<notin> fst ` set upd"
  shows "patch_state aid upd State = Inr None \<or>
         (\<exists>S. patch_state aid upd State = Inr (Some S) \<and> mirror_wf (PDict S))"
proof (cases "truthy State")
  case False
  then show ?thesis by (simp add: patch_state_def)
next
  case True
  with assms(1) obtain d where d: "State = PDict d"
    by (cases State) (simp_all add: mirror_wf_def)
  show ?thesis
  proof (cases "map_of d ''Actions''")
    case None
    with True d show ?thesis by (simp add: patch_state_def)
  next
    case (Some acts)
    with assms(1) d obtain xs where xs: "acts = PList xs" "list_all item_ok xs"
      by (cases acts) (simp_all add: mirror_wf_def)
    from patch_loop_ok[OF xs(2) assms(2), of aid] obtain ys where
      ys: "patch_loop aid upd xs = Inr ys" "list_all item_ok ys" by blast
    have "patch_state aid upd State = Inr (Some (dict_set ''Actions'' (PList ys) d))"
      using True d Some xs ys by (simp add: patch_state_def patch_actions_def)
    moreover have "mirror_wf (PDict (dict_set ''Actions'' (PList ys) d))"
      using ys(2) by (simp add: mirror_wf_def map_of_dict_set)
    ultimately show ?thesis by blast
  qed
qed

lemma mirror_wf_LastModified:
  "mirror_wf (PDict (dict_set ''LastModified'' v S)) = mirror_wf (PDict S)"
  by (simp add: mirror_wf_def map_of_dict_set)

lemma LoadSessionState_cong:
  "SessionId w' = SessionId w \<Longrightarrow> ActiveSessionDir w' = ActiveSessionDir w \<Longrightarrow>
     LoadSessionState w' = LoadSessionState w"
  by (simp add: LoadSessionState_def)

lemma LoadSessionState_LogToDatabase [simp]:
  "LoadSessionState (LogToDatabase l c m s a w) = LoadSessionState w"
  by (rule LoadSessionState_cong) simp_all

lemma LoadSessionState_SaveSessionState:
  "LoadSessionState (snd (SaveSessionState st w)) =
     (if truthy_str (SessionId w) \<and> ActiveSessionDir w (the (SessionId w)) \<noteq> None
      then (if serialisable (PDict (dict_set ''LastModified''
                    (PStr (isoformat (Clock w (Ticks w)))) st))
            then json_loads_dumps
                   (PDict (dict_set ''LastModified'' (PStr (isoformat (Clock w (Ticks w)))) st))
            else PNone)
      else LoadSessionState w)"
  by (auto simp: LoadSessionState_def SaveSessionState_active dump_file_def split: option.splits)

lemma map_of_json_loads_dumps:
  "map_of (map (\<lambda>kv. (fst kv, f (snd kv))) d) k = map_option f (map_of d k)"
  by (induction d) auto

lemma item_ok_json_loads_dumps: "item_ok x \<Longrightarrow> item_ok (json_loads_dumps x)"
  by (cases x) (simp_all add: item_ok_def map_of_json_loads_dumps)

lemma mirror_wf_json_loads_dumps:
  assumes "mirror_wf (PDict st)"
  shows "mirror_wf (json_loads_dumps (PDict st))"
proof (cases "map_of st ''Actions''")
  case None
  then show ?thesis by (simp add: mirror_wf_def map_of_json_loads_dumps)
next
  case (Some acts)
  with assms obtain xs where xs: "acts = PList xs" "list_all item_ok xs"
    by (cases acts) (simp_all add: mirror_wf_def)
  from xs(2) have "list_all item_ok (map json_loads_dumps xs)"
    by (simp add: list_all_iff item_ok_json_loads_dumps)
  with Some xs(1) show ?thesis by (simp add: mirror_wf_def map_of_json_loads_dumps)
qed

lemma mirror_wf_SaveSessionState:
  assumes "mirror_wf (PDict st)" "mirror_wf (LoadSessionState w)"
  shows "mirror_wf (LoadSessionState (snd (SaveSessionState st w)))"
proof -
  have "mirror_wf (PDict (dict_set ''LastModified'' v st))" for v
    using assms(1) by (simp add: mirror_wf_LastModified)
  then have a: "mirror_wf (json_loads_dumps (PDict (dict_set ''LastModified'' v st)))" for v
    by (rule mirror_wf_json_loads_dumps)
  have b: "mirror_wf PNone" by (simp add: mirror_wf_def)
  show ?thesis
    unfolding LoadSessionState_SaveSessionState using a b assms(2) by (simp del: json_loads_dumps.simps)
qed

lemma mirror_wf_ok: "mirror_wf (LoadSessionState w) \<Longrightarrow> mirror_ok w"
  by (cases "LoadSessionState w")
     (auto simp: mirror_wf_def mirror_ok_def split: option.splits pyval.splits)

lemma append_action_wf:
  assumes "truthy State" "mirror_wf State" "item_ok Action"
  shows "\<exists>S1. append_action State Action = Inr S1 \<and> mirror_wf (PDict S1)"
proof -
  from assms(1,2) obtain d where d: "State = PDict d"
    by (cases State) (simp_all add: mirror_wf_def)
  show ?thesis
  proof (cases "map_of d ''Actions''")
    case None
    then have "''Actions'' \<notin> set (map fst d)" by (simp add: map_of_eq_None_iff)
    with d None assms(3) show ?thesis
      by (simp add: append_action_def Let_def map_add_def mirror_wf_def map_of_dict_set)
  next
    case (Some acts)
    then have in_d: "''Actions'' \<in> set (map fst d)"
      by (metis map_of_eq_None_iff option.distinct(1) set_map)
    from Some assms(2) d obtain xs where xs: "acts = PList xs" "list_all item_ok xs"
      by (cases acts) (simp_all add: mirror_wf_def)
    with d Some in_d assms(3) show ?thesis
      by (simp add: append_action_def Let_def mirror_wf_def map_of_dict_set)
  qed
qed

lemma RecordAction_mirror_wf:
  assumes "truthy_str (SessionId w)" "has_session (the (SessionId w)) w"
    and "Uuids w (Drawn w) \<notin> set (map aActionId (Actions w))"
    and "params_ok Params" "mirror_wf (LoadSessionState w)"
  shows "mirror_wf (LoadSessionState (snd (RecordAction ActionType Params w)))"
proof -
  note unf = RecordAction_unfold[OF assms(1-4), of ActionType]
  let ?Action = "PDict [(''ActionId'', PStr (Uuids w (Drawn w))),
                          (''ActionType'', PStr ActionType),
                          (''StartTime'', PStr (isoformat (Clock w (Ticks w)))),
                          (''Status'', PStr ''STARTED''),
                          (''Params'', opt_dict Params),
                          (''Result'', PNone)]"
  let ?w3 = "w\<lparr>Drawn := Suc (Drawn w), Ticks := Suc (Ticks w),
                 Actions := Actions w @ [new_action_row ActionType Params w]\<rparr>"
  have w3: "mirror_wf (LoadSessionState ?w3)" using assms(5) by simp
  show ?thesis
  proof (cases "truthy (LoadSessionState w)")
    case False
    with w3 show ?thesis by (simp add: unf Let_def)
  next
    case True
    have "item_ok ?Action" by (simp add: item_ok_def)
    from append_action_wf[OF True assms(5) this] obtain S1 where
      S1: "append_action (LoadSessionState w) ?Action = Inr S1" "mirror_wf (PDict S1)" by blast
    from mirror_wf_SaveSessionState[OF S1(2) w3]
    have "mirror_wf (LoadSessionState (snd (SaveSessionState S1 ?w3)))" .
    with True S1(1) show ?thesis by (simp add: unf Let_def)
  qed
qed

lemma CompleteAction_SessionId [simp]:
  "SessionId (snd (CompleteAction aid Result Status w)) = SessionId w"
  by (simp add: CompleteAction_def now_def Let_def update_Actions_def
        split: sum.splits option.splits)

lemma CompleteAction_unfold:
  assumes "truthy_str (SessionId w)" "serialisable Result"
  shows "CompleteAction aid Result Status w =
     (let EndTime = isoformat (Clock w (Ticks w));
          w2 = update_Actions aid EndTime Status
                 (if Result \<noteq> PNone then Some (json_loads_dumps Result) else None)
                 (w\<lparr>Ticks := Suc (Ticks w)\<rparr>);
          Log = LogToDatabase ''INFO'' ''ActionTracker''
                  (''Action '' @ aid @ '' completed with status '' @ Status)
                  (SessionId w) (Some [(''Result'', Result)])
      in case patch_state aid
                [(''EndTime'', PStr EndTime), (''Status'', PStr Status), (''Result'', Result)]
                (LoadSessionState w) of
           Inl e \<Rightarrow> (False, w2)
         | Inr None \<Rightarrow> (True, Log w2)
         | Inr (Some State1) \<Rightarrow> (True, Log (snd (SaveSessionState State1 w2))))"
proof -
  from assms(1) obtain sid where sid: "SessionId w = Some sid" "sid \<noteq> []"
    by (cases "SessionId w") (simp_all add: truthy_str_def)
  have l: "LoadSessionState (update_Actions aid t Status r (w\<lparr>Ticks := Suc (Ticks w)\<rparr>)) =
             LoadSessionState w" for t r
    by (simp add: update_Actions_def)
  show ?thesis
  proof (cases "Result = PNone")
    case True
    with assms sid show ?thesis
      by (simp add: CompleteAction_def now_def Let_def l)
  next
    case False
    with assms sid show ?thesis
      by (simp add: CompleteAction_def now_def Let_def json_dumps_def l)
  qed
qed

lemma CompleteAction_returns_True:
  assumes "truthy_str (SessionId w)" "serialisable Result" "mirror_wf (LoadSessionState w)"
  shows "fst (CompleteAction aid Result Status w)"
proof -
  let ?upd = "[(''EndTime'', PStr (isoformat (Clock w (Ticks w)))), (''Status'', PStr Status),
               (''Result'', Result)]"
  have "''ActionId'' \<notin> fst ` set ?upd" by simp
  from patch_state_ok[OF assms(3) this, of aid]
  show ?thesis
  proof
    assume "patch_state aid ?upd (LoadSessionState w) = Inr None"
    then show ?thesis
      by (simp add: CompleteAction_unfold[OF assms(1,2)] Let_def)
  next
    assume "\<exists>S. patch_state aid ?upd (LoadSessionState w) = Inr (Some S) \<and> mirror_wf (PDict S)"
    then obtain S where "patch_state aid ?upd (LoadSessionState w) = Inr (Some S)" by blast
    then show ?thesis
      by (simp add: CompleteAction_unfold[OF assms(1,2)] Let_def)
  qed
qed

lemma CancelAction_rejects:
  assumes "filter (\<lambda>r. aActionId r = aid) (Actions w) = a # rest" "aStatus a \<noteq> ''STARTED''"
  shows "CancelAction aid w = (False, w)"
  using assms by (simp add: CancelAction_def)

lemma CancelAction_accepts:
  assumes "truthy_str (SessionId w)"
    and "filter (\<lambda>r. aActionId r = aid) (Actions w) = a # rest" "aStatus a = ''STARTED''"
    and "mirror_wf (LoadSessionState w)"
  shows "fst (CancelAction aid w)"
    and "Actions (snd (CancelAction aid w)) =
           map (\<lambda>r. if aActionId r = aid
                     then r\<lparr>aEndTime := Some (isoformat (Clock w (Ticks w))),
                            aStatus := ''CANCELED'',
                            aResult := Some (PDict [(''Reason'', PStr ''Canceled by user'')])\<rparr>
                     else r) (Actions w)"
    and "SessionId (snd (CancelAction aid w)) = SessionId w"
    and "mirror_wf (LoadSessionState (snd (CancelAction aid w)))"
proof -
  let ?upd = "[(''EndTime'', PStr (isoformat (Clock w (Ticks w)))), (''Status'', PStr ''CANCELED''),
               (''Result'', PDict [(''Reason'', PStr ''Canceled by user'')])]"
  let ?w2 = "update_Actions aid (isoformat (Clock w (Ticks w))) ''CANCELED''
               (Some (PDict [(''Reason'', PStr ''Canceled by user'')])) (w\<lparr>Ticks := Suc (Ticks w)\<rparr>)"
  have w2: "LoadSessionState ?w2 = LoadSessionState w" by (simp add: update_Actions_def)
  have "''ActionId'' \<notin> fst ` set ?upd" by simp
  from patch_state_ok[OF assms(4) this, of aid]
  have all: "fst (CancelAction aid w) \<and>
    Actions (snd (CancelAction aid w)) =
           map (\<lambda>r. if aActionId r = aid
                     then r\<lparr>aEndTime := Some (isoformat (Clock w (Ticks w))),
                            aStatus := ''CANCELED'',
                            aResult := Some (PDict [(''Reason'', PStr ''Canceled by user'')])\<rparr>
                     else r) (Actions w) \<and>
    SessionId (snd (CancelAction aid w)) = SessionId w \<and>
    mirror_wf (LoadSessionState (snd (CancelAction aid w)))"
  proof
    assume p: "patch_state aid ?upd (LoadSessionState w) = Inr None"
    have "mirror_wf (LoadSessionState ?w2)" using assms(4) by (simp only: w2)
    with p assms(1-3) w2 show ?thesis
      by (simp add: CancelAction_def now_def Let_def) (simp add: update_Actions_def)
  next
    assume "\<exists>S. patch_state aid ?upd (LoadSessionState w) = Inr (Some S) \<and> mirror_wf (PDict S)"
    then obtain S where p: "patch_state aid ?upd (LoadSessionState w) = Inr (Some S)"
      and S: "mirror_wf (PDict S)" by blast
    have "mirror_wf (LoadSessionState ?w2)" using assms(4) by (simp only: w2)
    from mirror_wf_SaveSessionState[OF S this]
    have "mirror_wf (LoadSessionState (snd (SaveSessionState S ?w2)))" .
    with p assms(1-3) w2 show ?thesis
      by (simp add: CancelAction_def now_def Let_def) (simp add: update_Actions_def)
  qed
  from all show "fst (CancelAction aid w)" by simp
  from all show "Actions (snd (CancelAction aid w)) =
           map (\<lambda>r. if aActionId r = aid
                     then r\<lparr>aEndTime := Some (isoformat (Clock w (Ticks w))),
                            aStatus := ''CANCELED'',
                            aResult := Some (PDict [(''Reason'', PStr ''Canceled by user'')])\<rparr>
                     else r) (Actions w)" by simp
  from all show "SessionId (snd (CancelAction aid w)) = SessionId w" by simp
  from all show "mirror_wf (LoadSessionState (snd (CancelAction aid w)))" by simp
qed

lemma ex_running_mirror_wf: "mirror_wf (LoadSessionState ex_running)"
  by (simp add: mirror_wf_def LoadSessionState_def ex_running_def ex_fresh_def truthy_str_def
        ex_sid_def ex_dir_def)

lemma ex_recorded_facts:
  "fst (RecordAction ''BUILD'' None ex_running) = Some ''uuid-0001''"
  "Actions ex_recorded = [new_action_row ''BUILD'' None ex_running]"
  "truthy_str (SessionId ex_recorded)"
  "mirror_wf (LoadSessionState ex_recorded)"
proof -
  have pk: "Uuids ex_running (Drawn ex_running) \<notin> set (map aActionId (Actions ex_running))"
    by (simp add: ex_running_facts)
  have po: "params_ok None" by (simp add: params_ok_def truthy_dict_def)
  note ok = RecordAction_ok[OF ex_running_facts(1) ex_running_facts(3) pk po
              mirror_wf_ok[OF ex_running_mirror_wf], of "''BUILD''"]
  from ok(1) show "fst (RecordAction ''BUILD'' None ex_running) = Some ''uuid-0001''"
    by (simp add: ex_running_facts)
  from ok(2) show "Actions ex_recorded = [new_action_row ''BUILD'' None ex_running]"
    by (simp add: ex_recorded_def ex_running_facts)
  from ok(3) ex_running_facts(1) show "truthy_str (SessionId ex_recorded)"
    by (simp add: ex_recorded_def)
  from RecordAction_mirror_wf[OF ex_running_facts(1) ex_running_facts(3) pk po ex_running_mirror_wf,
         of "''BUILD''"]
  show "mirror_wf (LoadSessionState ex_recorded)" by (simp add: ex_recorded_def)
qed

lemma ex_new_row:
  "aActionId (new_action_row ''BUILD'' None ex_running) = ''uuid-0001''"
  "aStatus (new_action_row ''BUILD'' None ex_running) = ''STARTED''"
  by (simp_all add: new_action_row_def ex_running_facts)

lemma ex_canceled_facts:
  "fst (CancelAction ''uuid-0001'' ex_recorded)"
  "Actions ex_canceled =
     [(new_action_row ''BUILD'' None ex_running)
        \<lparr>aEndTime := Some (isoformat (Clock ex_recorded (Ticks ex_recorded))),
         aStatus := ''CANCELED'',
         aResult := Some (PDict [(''Reason'', PStr ''Canceled by user'')])\<rparr>]"
  "truthy_str (SessionId ex_canceled)"
  "mirror_wf (LoadSessionState ex_canceled)"
proof -
  have f: "filter (\<lambda>r. aActionId r = ''uuid-0001'') (Actions ex_recorded) =
             new_action_row ''BUILD'' None ex_running # []"
    by (simp add: ex_recorded_facts(2) ex_new_row)
  note ok = CancelAction_accepts[OF ex_recorded_facts(3) f ex_new_row(2) ex_recorded_facts(4)]
  from ok(1) show "fst (CancelAction ''uuid-0001'' ex_recorded)" .
  from ok(2) show "Actions ex_canceled =
     [(new_action_row ''BUILD'' None ex_running)
        \<lparr>aEndTime := Some (isoformat (Clock ex_recorded (Ticks ex_recorded))),
         aStatus := ''CANCELED'',
         aResult := Some (PDict [(''Reason'', PStr ''Canceled by user'')])\<rparr>]"
    by (simp add: ex_canceled_def ex_recorded_facts(2) ex_new_row)
  from ok(3) ex_recorded_facts(3) show "truthy_str (SessionId ex_canceled)"
    by (simp add: ex_canceled_def)
  from ok(4) show "mirror_wf (LoadSessionState ex_canceled)" by (simp add: ex_canceled_def)
qed

text \<open>
  C2 (at most one terminal status), evaluated on the sequence \<open>RecordAction\<close>,
  \<open>CancelAction\<close>, \<open>CompleteAction\<close>. The claim is that a terminal call on an action whose
  stored status is already terminal is rejected and leaves the row unchanged. \<open>CancelAction\<close>
  does that (last conjunct: it reads the stored status first). \<open>CompleteAction\<close> does not:
  called on the canceled action it returns \<open>True\<close>, and the stored status goes from
  \<open>CANCELED\<close> to \<open>COMPLETED\<close> with a new result.
\<close>

theorem CompleteAction_after_CancelAction:
  "fst (RecordAction ''BUILD'' None ex_running) = Some ''uuid-0001'' \<and>
   map aStatus (Actions ex_recorded) = [''STARTED''] \<and>
   fst (CancelAction ''uuid-0001'' ex_recorded) \<and>
   map aStatus (Actions ex_canceled) = [''CANCELED''] \<and>
   map aResult (Actions ex_canceled) = [Some (PDict [(''Reason'', PStr ''Canceled by user'')])] \<and>
   fst (CompleteAction ''uuid-0001'' (PDict [(''ok'', PBool True)]) ''COMPLETED'' ex_canceled) \<and>
   map aActionId (Actions ex_completed) = [''uuid-0001''] \<and>
   map aStatus (Actions ex_completed) = [''COMPLETED''] \<and>
   map aResult (Actions ex_completed) = [Some (PDict [(''ok'', PBool True)])] \<and>
   CancelAction ''uuid-0001'' ex_completed = (False, ex_completed)"
proof -
  have ser: "serialisable (PDict [(''ok'', PBool True)])" by simp
  have a: "map aStatus (Actions ex_recorded) = [''STARTED'']"
    by (simp add: ex_recorded_facts(2) ex_new_row)
  have b: "map aStatus (Actions ex_canceled) = [''CANCELED'']"
    "map aResult (Actions ex_canceled) = [Some (PDict [(''Reason'', PStr ''Canceled by user'')])]"
    by (simp_all add: ex_canceled_facts(2))
  have c: "fst (CompleteAction ''uuid-0001'' (PDict [(''ok'', PBool True)]) ''COMPLETED'' ex_canceled)"
    by (rule CompleteAction_returns_True[OF ex_canceled_facts(3) ser ex_canceled_facts(4)])
  have acts: "Actions ex_completed =
     [(new_action_row ''BUILD'' None ex_running)
        \<lparr>aEndTime := Some (isoformat (Clock ex_canceled (Ticks ex_canceled))),
         aStatus := ''COMPLETED'',
         aResult := Some (PDict [(''ok'', PBool True)])\<rparr>]"
    by (simp add: ex_completed_def CompleteAction_Actions[OF ex_canceled_facts(3) ser]
          ex_canceled_facts(2) ex_new_row)
  have d: "map aActionId (Actions ex_completed) = [''uuid-0001'']"
    "map aStatus (Actions ex_completed) = [''COMPLETED'']"
    "map aResult (Actions ex_completed) = [Some (PDict [(''ok'', PBool True)])]"
    by (simp_all add: acts ex_new_row)
  have e: "CancelAction ''uuid-0001'' ex_completed = (False, ex_completed)"
    by (rule CancelAction_rejects[where a = "(new_action_row ''BUILD'' None ex_running)
        \<lparr>aEndTime := Some (isoformat (Clock ex_canceled (Ticks ex_canceled))),
         aStatus := ''COMPLETED'',
         aResult := Some (PDict [(''ok'', PBool True)])\<rparr>" and rest = "[]"])
       (simp_all add: acts ex_new_row)
  from ex_recorded_facts(1) a ex_canceled_facts(1) b c d e show ?thesis by (intro conjI)
qed

section \<open>Resuming and starting sessions\<close>

lemma end_current_frame [simp]:
  "CrashSessionDir (end_current s w) = CrashSessionDir w"
  "Actions (end_current s w) = Actions w"
  "StateSnapshots (end_current s w) = StateSnapshots w"
  "SessionRelationships (end_current s w) = SessionRelationships w"
  "Clock (end_current s w) = Clock w"
  "Uuids (end_current s w) = Uuids w"
  "Drawn (end_current s w) = Drawn w"
  "map sSessionId (Sessions (end_current s w)) = map sSessionId (Sessions w)"
  by (simp_all add: end_current_def)

lemma has_session_end_current [simp]:
  "has_session x (end_current s w) = has_session x w"
  by (simp add: has_session_def)

lemma has_session_Sessions_upd:
  "has_session x (w\<lparr>Sessions := ss\<rparr>) = (x \<in> sSessionId ` set ss)"
  by (simp add: has_session_def)

lemma has_session_image: "has_session x w = (x \<in> sSessionId ` set (Sessions w))"
  by (simp add: has_session_def)

lemma ids_end_current [simp]:
  "sSessionId ` set (Sessions (end_current s w)) = sSessionId ` set (Sessions w)"
proof -
  have "set (map sSessionId (Sessions (end_current s w))) = set (map sSessionId (Sessions w))"
    by (simp only: end_current_frame)
  then show ?thesis by (simp only: set_map)
qed

lemma makedirs_active_frame [simp]:
  "SessionId (makedirs_active sid w) = SessionId w"
  "LockFile (makedirs_active sid w) = LockFile w"
  "CrashSessionDir (makedirs_active sid w) = CrashSessionDir w"
  "CompletedSessionDir (makedirs_active sid w) = CompletedSessionDir w"
  "Sessions (makedirs_active sid w) = Sessions w"
  "Actions (makedirs_active sid w) = Actions w"
  "SessionRelationships (makedirs_active sid w) = SessionRelationships w"
  "StateSnapshots (makedirs_active sid w) = StateSnapshots w"
  "Clock (makedirs_active sid w) = Clock w"
  "Ticks (makedirs_active sid w) = Ticks w"
  "Uuids (makedirs_active sid w) = Uuids w"
  "Drawn (makedirs_active sid w) = Drawn w"
  by (simp_all add: makedirs_active_def split: option.splits)

lemma makedirs_active_exists:
  "\<exists>d. ActiveSessionDir (makedirs_active sid w) sid = Some d \<and>
        (ActiveSessionDir w sid = None \<longrightarrow> d = SDir None Map.empty) \<and>
        (ActiveSessionDir w sid \<noteq> None \<longrightarrow> ActiveSessionDir w sid = Some d)"
  by (cases "ActiveSessionDir w sid") (simp_all add: makedirs_active_def)

lemma CreateLockFile_frame [simp]:
  "SessionId (CreateLockFile w) = SessionId w"
  "LockFile (CreateLockFile w) = SessionId w"
  "ActiveSessionDir (CreateLockFile w) = ActiveSessionDir w"
  "CrashSessionDir (CreateLockFile w) = CrashSessionDir w"
  "CompletedSessionDir (CreateLockFile w) = CompletedSessionDir w"
  "Sessions (CreateLockFile w) = Sessions w"
  "Actions (CreateLockFile w) = Actions w"
  "SessionRelationships (CreateLockFile w) = SessionRelationships w"
  "StateSnapshots (CreateLockFile w) = StateSnapshots w"
  "Clock (CreateLockFile w) = Clock w"
  "Ticks (CreateLockFile w) = Ticks w"
  "Uuids (CreateLockFile w) = Uuids w"
  "Drawn (CreateLockFile w) = Drawn w"
  by (simp_all add: CreateLockFile_def)

lemma makedirs_active_made [simp]: "ActiveSessionDir (makedirs_active sid w) sid \<noteq> None"
  by (cases "ActiveSessionDir w sid") (simp_all add: makedirs_active_def)

lemma serialisable_dict_set:
  "serialisable (PDict d) \<Longrightarrow> serialisable v \<Longrightarrow> serialisable (PDict (dict_set k v d))"
  by (induction d) auto

lemma serialisable_minimal_state [simp]:
  "serialisable (PDict (dict_set ''LastModified'' v (minimal_state a b c))) = serialisable v"
  by (auto simp: minimal_state_def)

lemmas ResumeSession_simps =
  ResumeSession_def resume_id_def Let_def now_def insert_Sessions_def
  insert_SessionRelationships_def has_session_Sessions_upd has_session_image

lemma split_path_plain: "CHR ''/'' \<notin> set s \<Longrightarrow> split_path s = [s]"
  by (induction s) auto

lemma crashed_path_plain: "plain_name S \<Longrightarrow> crashed_path w S = CrashSessionDir w S"
  by (cases "CrashSessionDir w S") (simp_all add: crashed_path_def plain_name_def split_path_plain)

lemma crashed_path_partition:
  "crashed_path w [] = Some (SDir None (CrashSessionDir w))"
  "crashed_path w ''.'' = Some (SDir None (CrashSessionDir w))"
  by (simp_all add: crashed_path_def)

lemma crashed_path_upd [simp]:
  "crashed_path (w\<lparr>SessionId := a\<rparr>) S = crashed_path w S"
  "crashed_path (w\<lparr>LockFile := b\<rparr>) S = crashed_path w S"
  "crashed_path (w\<lparr>Ticks := n\<rparr>) S = crashed_path w S"
  "crashed_path (w\<lparr>Sessions := ss\<rparr>) S = crashed_path w S"
  "crashed_path (w\<lparr>SessionRelationships := rl\<rparr>) S = crashed_path w S"
  by (simp_all add: crashed_path_def session_root_def cong: if_cong place.case_cong)

lemma ResumeSession_ok:
  assumes "plain_name S"
    and "CrashSessionDir w S = Some cd" "has_session S w" "\<not> has_session (resume_id S w) w"
  shows "fst (ResumeSession S w) = Inr (Some (resume_id S w))"
    and "SessionId (snd (ResumeSession S w)) = Some (resume_id S w)"
    and "LockFile (snd (ResumeSession S w)) = Some (resume_id S w)"
    and "Sessions (snd (ResumeSession S w)) =
           Sessions (end_current ''Ended to resume crashed session'' w) @
             [\<lparr>sSessionId = resume_id S w,
               sStartTime = isoformat (Clock w
                  (Suc (Ticks (end_current ''Ended to resume crashed session'' w)))),
               sEndTime = None, sStatus = ''ACTIVE'', sSummary = None\<rparr>]"
    and "SessionRelationships (snd (ResumeSession S w)) =
           SessionRelationships w @
             [\<lparr>rParentSessionId = S, rChildSessionId = resume_id S w,
               rRelationType = ''RESUME''\<rparr>]"
    and "CrashSessionDir (snd (ResumeSession S w)) = CrashSessionDir w"
    and "Clock (snd (ResumeSession S w)) = Clock w"
  using assms by (simp_all add: ResumeSession_simps crashed_path_plain)

lemma ResumeSession_state:
  assumes "plain_name S"
    and "CrashSessionDir w S = Some cd" "has_session S w" "\<not> has_session (resume_id S w) w"
    and "serialisable (PDict (resumed_state (state_json cd) (resume_id S w)
           (isoformat (Clock w (Suc (Ticks (end_current ''Ended to resume crashed session'' w)))))
           S))"
  shows "LoadSessionState (snd (ResumeSession S w)) =
           json_loads_dumps (PDict (dict_set ''LastModified''
             (PStr (isoformat (Clock w
                (Suc (Suc (Ticks (end_current ''Ended to resume crashed session'' w)))))))
             (resumed_state (state_json cd) (resume_id S w)
               (isoformat (Clock w
                  (Suc (Ticks (end_current ''Ended to resume crashed session'' w))))) S)))"
    and "ActiveSessionDir (snd (ResumeSession S w)) (resume_id S w) \<noteq> None"
proof -
  let ?st = "resumed_state (state_json cd) (resume_id S w)
               (isoformat (Clock w
                  (Suc (Ticks (end_current ''Ended to resume crashed session'' w))))) S"
  have ser: "serialisable (PDict (dict_set ''LastModified'' (PStr t) ?st))" for t
    by (rule serialisable_dict_set[OF assms(5)]) simp
  from assms(1-4) ser
  show "LoadSessionState (snd (ResumeSession S w)) =
           json_loads_dumps (PDict (dict_set ''LastModified''
             (PStr (isoformat (Clock w
                (Suc (Suc (Ticks (end_current ''Ended to resume crashed session'' w))))))) ?st))"
    by (simp add: ResumeSession_simps crashed_path_plain LoadSessionState_SaveSessionState
          truthy_str_def del: serialisable.simps json_loads_dumps.simps)
  from assms(1-4)
  show "ActiveSessionDir (snd (ResumeSession S w)) (resume_id S w) \<noteq> None"
    by (simp add: ResumeSession_simps crashed_path_plain truthy_str_def SaveSessionState_active
          split: option.splits)
qed

lemma has_session_ResumeSession:
  "has_session x w \<Longrightarrow> has_session x (snd (ResumeSession S w))"
  by (simp add: ResumeSession_simps split: option.splits)

lemma ResumeSession_collision:
  assumes "crashed_path w S = Some cd" "has_session (resume_id S w) w"
  shows "fst (ResumeSession S w) =
           Inl (PyExc ''IntegrityError'' ''UNIQUE constraint failed: Sessions.SessionId'')"
    and "SessionId (snd (ResumeSession S w)) = Some (resume_id S w)"
  using assms by (simp_all add: ResumeSession_simps)

lemma ResumeSession_no_parent:
  assumes "crashed_path w S = Some cd" "\<not> has_session S w" "\<not> has_session (resume_id S w) w"
  shows "fst (ResumeSession S w) = Inl (PyExc ''IntegrityError'' ''FOREIGN KEY constraint failed'')"
    and "SessionId (snd (ResumeSession S w)) = Some (resume_id S w)"
    and "Sessions (snd (ResumeSession S w)) =
           Sessions (end_current ''Ended to resume crashed session'' w) @
             [\<lparr>sSessionId = resume_id S w,
               sStartTime = isoformat (Clock w
                  (Suc (Ticks (end_current ''Ended to resume crashed session'' w)))),
               sEndTime = None, sStatus = ''ACTIVE'', sSummary = None\<rparr>]"
  using assms by (simp_all add: ResumeSession_simps)

lemma EndSession_Sessions:
  assumes "truthy_str (SessionId w)"
  shows "Sessions (snd (EndSession Summary w)) =
           map (\<lambda>r. if sSessionId r = the (SessionId w)
                     then r\<lparr>sEndTime := Some (isoformat (Clock w (Ticks w))),
                            sStatus := ''COMPLETED'',
                            sSummary := (if truthy_str Summary then Summary else sSummary r)\<rparr>
                     else r) (Sessions w)"
  using assms
  by (simp add: EndSession_def now_def Let_def split: option.splits sum.splits)

lemma resume_id_ex_clock:
  "Clock w = ex_clock \<Longrightarrow> resume_id S w = S @ ''_resumed_20250318190000''"
  by (simp add: resume_id_def now_def strftime_def ex_clock_def zpad2_def zpad4_def digit_def)

lemma plain_name_ex_sid: "plain_name ex_sid"
  by (simp add: plain_name_def ex_sid_def)

lemma resumed_state_fallback:
  "file = None \<or> file = Some (Malformed raw) \<Longrightarrow>
     resumed_state file a b c = minimal_state a b c"
  by (auto simp: resumed_state_def)

text \<open>
  C10 (\<open>ResumeSession\<close> of an unknown session), as the code has it. The first thing
  \<open>ResumeSession\<close> does is \<open>os.path.exists\<close> on the path made of the crashed partition and
  the identifier. When nothing is at that path, it returns \<open>None\<close> and the whole state is
  as before: a current session is not ended. For an identifier that names a directory
  entry (\<open>plain_name\<close>) this is the case as soon as the crashed partition has no directory
  of that name.
\<close>

theorem ResumeSession_not_found:
  "(crashed_path w CrashedId = None \<longrightarrow> ResumeSession CrashedId w = (Inr None, w)) \<and>
   (plain_name CrashedId \<and> CrashSessionDir w CrashedId = None \<longrightarrow>
      ResumeSession CrashedId w = (Inr None, w))"
proof (intro conjI impI)
  assume "crashed_path w CrashedId = None"
  then show "ResumeSession CrashedId w = (Inr None, w)" by (simp add: ResumeSession_def)
next
  assume "plain_name CrashedId \<and> CrashSessionDir w CrashedId = None"
  then have "crashed_path w CrashedId = None" by (simp add: crashed_path_plain)
  then show "ResumeSession CrashedId w = (Inr None, w)" by (simp add: ResumeSession_def)
qed

theorem ResumeSession_not_found_witness:
  "SessionId ex_running = Some ex_sid \<and> plain_name ''20240101000000'' \<and>
   CrashSessionDir ex_running ''20240101000000'' = None \<and>
   ResumeSession ''20240101000000'' ex_running = (Inr None, ex_running) \<and>
   crashed_path ex_running ''2024/'' = None \<and>
   ResumeSession ''2024/'' ex_running = (Inr None, ex_running)"
proof -
  have a: "CrashSessionDir ex_running ''20240101000000'' = None"
    by (simp add: ex_running_def ex_fresh_def)
  have b: "SessionId ex_running = Some ex_sid"
    by (simp add: ex_running_def)
  have c: "plain_name ''20240101000000''" by (simp add: plain_name_def)
  from ResumeSession_not_found[of ex_running "''20240101000000''", THEN conjunct2] a c
  have d: "ResumeSession ''20240101000000'' ex_running = (Inr None, ex_running)" by simp
  have e: "crashed_path ex_running ''2024/'' = None"
    by (simp add: crashed_path_def ex_running_def ex_fresh_def)
  from ResumeSession_not_found[of ex_running "''2024/''", THEN conjunct1] e
  have f: "ResumeSession ''2024/'' ex_running = (Inr None, ex_running)" by simp
  from b c a d e f show ?thesis by (intro conjI)
qed

text \<open>
  The identifiers \<open>.\<close> and the empty string: no directory of that name is under the
  crashed partition, but the path tested is the partition itself, which exists. The
  current session is ended, the manager's identifier is replaced, a row is inserted
  for the new identifier, and the insert of the \<open>RESUME\<close> edge raises, since no session
  is called \<open>.\<close> or has the empty name.
\<close>

theorem ResumeSession_partition_path:
  "SessionId ex_running = Some ex_sid \<and>
   CrashSessionDir ex_running ''.'' = None \<and> CrashSessionDir ex_running [] = None \<and>
   fst (ResumeSession ''.'' ex_running) = Inl (PyExc ''IntegrityError'' ''FOREIGN KEY constraint failed'') \<and>
   SessionId (snd (ResumeSession ''.'' ex_running)) = Some ''._resumed_20250318190000'' \<and>
   map sSessionId (Sessions (snd (ResumeSession ''.'' ex_running))) =
     [ex_sid, ''._resumed_20250318190000''] \<and>
   map sStatus (Sessions (snd (ResumeSession ''.'' ex_running))) = [''COMPLETED'', ''ACTIVE''] \<and>
   fst (ResumeSession [] ex_running) = Inl (PyExc ''IntegrityError'' ''FOREIGN KEY constraint failed'') \<and>
   SessionId (snd (ResumeSession [] ex_running)) = Some ''_resumed_20250318190000''"
proof -
  have c: "Clock ex_running = ex_clock" by (simp add: ex_running_def ex_fresh_def)
  note rid = resume_id_ex_clock[OF c]
  have n: "\<not> has_session ''.'' ex_running" "\<not> has_session [] ex_running"
    "\<not> has_session (''.'' @ ''_resumed_20250318190000'') ex_running"
    "\<not> has_session ([] @ ''_resumed_20250318190000'') ex_running"
    by (simp_all add: ex_running_def ex_fresh_def has_session_def ex_sid_def)
  have n3: "\<not> has_session (resume_id ''.'' ex_running) ex_running"
    unfolding rid by (rule n(3))
  have n4: "\<not> has_session (resume_id [] ex_running) ex_running"
    unfolding rid by (rule n(4))
  note dot = ResumeSession_no_parent[OF crashed_path_partition(2) n(1) n3]
  note emp = ResumeSession_no_parent[OF crashed_path_partition(1) n(2) n4]
  have e: "Sessions (end_current ''Ended to resume crashed session'' ex_running) =
             map (\<lambda>r. if sSessionId r = ex_sid
                       then r\<lparr>sEndTime := Some (isoformat (Clock ex_running (Ticks ex_running))),
                              sStatus := ''COMPLETED'',
                              sSummary := Some ''Ended to resume crashed session''\<rparr>
                       else r) (Sessions ex_running)"
    by (simp add: end_current_def ex_running_facts(1) EndSession_Sessions[OF ex_running_facts(1)])
       (simp add: ex_running_def truthy_str_def)
  have s: "Sessions ex_running =
             [\<lparr>sSessionId = ex_sid, sStartTime = ''2025-03-18T19:00:00.000001'',
               sEndTime = None, sStatus = ''ACTIVE'', sSummary = None\<rparr>]"
    by (simp add: ex_running_def ex_fresh_def)
  have a: "SessionId ex_running = Some ex_sid"
    "CrashSessionDir ex_running ''.'' = None" "CrashSessionDir ex_running [] = None"
    by (simp_all add: ex_running_def ex_fresh_def)
  have b1: "fst (ResumeSession ''.'' ex_running) = Inl (PyExc ''IntegrityError'' ''FOREIGN KEY constraint failed'')" by (rule dot(1))
  have b2: "SessionId (snd (ResumeSession ''.'' ex_running)) = Some ''._resumed_20250318190000''"
    by (simp add: dot(2) rid)
  have b3: "map sSessionId (Sessions (snd (ResumeSession ''.'' ex_running))) =
     [ex_sid, ''._resumed_20250318190000'']"
    by (simp add: dot(3) e s rid)
  have b4: "map sStatus (Sessions (snd (ResumeSession ''.'' ex_running))) =
     [''COMPLETED'', ''ACTIVE'']"
    by (simp add: dot(3) e s)
  have b5: "fst (ResumeSession [] ex_running) = Inl (PyExc ''IntegrityError'' ''FOREIGN KEY constraint failed'')" by (rule emp(1))
  have b6: "SessionId (snd (ResumeSession [] ex_running)) = Some ''_resumed_20250318190000''"
    by (simp add: emp(2) rid)
  from a b1 b2 b3 b4 b5 b6 show ?thesis by (intro conjI)
qed

text \<open>
  C4 (corruption never blocks resumption), as the code has it. \<open>S\<close> is a crashed
  session: its identifier names a directory entry, it has a row in the store and a
  directory under the crashed partition. The identifier computed for the new session is
  \<open>S_resumed_<stamp>\<close>, the stamp being the clock to the second, and it is not yet in the
  store. The \<open>state.json\<close> of \<open>S\<close> is absent or does not decode. Then \<open>ResumeSession\<close>
  returns the new identifier, which differs from \<open>S\<close>, is the current session, is in the
  lock file, has an \<open>ACTIVE\<close> row, an active directory and a \<open>RESUME\<close> edge from \<open>S\<close>;
  and the state loaded afterwards is the minimal one: a dictionary of the new identifier,
  the two time stamps, empty messages and context, and \<open>ResumedFrom = S\<close>. Nothing of the
  text of the corrupted file is in it.
\<close>

theorem ResumeSession_survives_corruption:
  assumes "plain_name S"
    and "CrashSessionDir w S = Some cd" "has_session S w" "\<not> has_session (resume_id S w) w"
    and "state_json cd = None \<or> state_json cd = Some (Malformed raw)"
  shows "fst (ResumeSession S w) = Inr (Some (resume_id S w)) \<and>
         resume_id S w \<noteq> S \<and>
         SessionId (snd (ResumeSession S w)) = Some (resume_id S w) \<and>
         LockFile (snd (ResumeSession S w)) = Some (resume_id S w) \<and>
         ActiveSessionDir (snd (ResumeSession S w)) (resume_id S w) \<noteq> None \<and>
         (\<exists>row \<in> set (Sessions (snd (ResumeSession S w))).
             sSessionId row = resume_id S w \<and> sStatus row = ''ACTIVE'') \<and>
         \<lparr>rParentSessionId = S, rChildSessionId = resume_id S w, rRelationType = ''RESUME''\<rparr>
           \<in> set (SessionRelationships (snd (ResumeSession S w))) \<and>
         LoadSessionState (snd (ResumeSession S w)) =
           PDict [(''SessionId'', PStr (resume_id S w)),
                  (''StartTime'', PStr (isoformat (Clock w
                     (Suc (Ticks (end_current ''Ended to resume crashed session'' w)))))),
                  (''Messages'', PList []), (''Context'', PDict []),
                  (''ResumedFrom'', PStr S),
                  (''LastModified'', PStr (isoformat (Clock w
                     (Suc (Suc (Ticks (end_current ''Ended to resume crashed session'' w)))))))]"
proof -
  let ?st = "isoformat (Clock w (Suc (Ticks (end_current ''Ended to resume crashed session'' w))))"
  note ok = ResumeSession_ok[OF assms(1-4)]
  have fb: "resumed_state (state_json cd) (resume_id S w) ?st S = minimal_state (resume_id S w) ?st S"
    by (rule resumed_state_fallback[OF assms(5)])
  have ser: "serialisable (PDict (resumed_state (state_json cd) (resume_id S w) ?st S))"
    by (simp add: fb minimal_state_def)
  note st = ResumeSession_state[OF assms(1-4) ser]
  have a: "resume_id S w \<noteq> S" by (simp add: resume_id_def)
  have b: "\<exists>row \<in> set (Sessions (snd (ResumeSession S w))).
             sSessionId row = resume_id S w \<and> sStatus row = ''ACTIVE''"
    by (simp add: ok(4))
  have c: "\<lparr>rParentSessionId = S, rChildSessionId = resume_id S w, rRelationType = ''RESUME''\<rparr>
           \<in> set (SessionRelationships (snd (ResumeSession S w)))"
    by (simp add: ok(5))
  have d: "LoadSessionState (snd (ResumeSession S w)) =
           PDict [(''SessionId'', PStr (resume_id S w)), (''StartTime'', PStr ?st),
                  (''Messages'', PList []), (''Context'', PDict []),
                  (''ResumedFrom'', PStr S),
                  (''LastModified'', PStr (isoformat (Clock w
                     (Suc (Suc (Ticks (end_current ''Ended to resume crashed session'' w)))))))]"
    by (simp add: st(1) fb minimal_state_def)
  from ok(1) a ok(2) ok(3) st(2) b c d show ?thesis by (intro conjI)
qed

lemma ex_crashed_resume_id: "resume_id ex_sid ex_crashed = ''20250318190000_resumed_20250318190000''"
  by (simp add: resume_id_def end_current_def now_def ex_crashed_def ex_fresh_def truthy_str_def
        ex_sid_def ex_clock_def strftime_def zpad2_def zpad4_def digit_def)

theorem ResumeSession_survives_corruption_witness:
  "plain_name ex_sid \<and>
   CrashSessionDir ex_crashed ex_sid = Some (SDir (Some (Malformed ''{SessionId: 2025'')) Map.empty) \<and>
   fst (ResumeSession ex_sid ex_crashed) = Inr (Some ''20250318190000_resumed_20250318190000'') \<and>
   SessionId (snd (ResumeSession ex_sid ex_crashed)) = Some ''20250318190000_resumed_20250318190000'' \<and>
   LoadSessionState (snd (ResumeSession ex_sid ex_crashed)) =
     PDict [(''SessionId'', PStr ''20250318190000_resumed_20250318190000''),
            (''StartTime'', PStr ''2025-03-18T19:00:00.000005''),
            (''Messages'', PList []), (''Context'', PDict []),
            (''ResumedFrom'', PStr ex_sid),
            (''LastModified'', PStr ''2025-03-18T19:00:00.000006'')]"
proof -
  have h: "CrashSessionDir ex_crashed ex_sid =
             Some (SDir (Some (Malformed ''{SessionId: 2025'')) Map.empty)"
    "has_session ex_sid ex_crashed"
    by (simp_all add: ex_crashed_def ex_fresh_def has_session_def)
  have f: "\<not> has_session (resume_id ex_sid ex_crashed) ex_crashed"
    by (simp add: ex_crashed_resume_id) (simp add: ex_crashed_def ex_fresh_def has_session_def ex_sid_def)
  have m: "state_json (SDir (Some (Malformed ''{SessionId: 2025'')) Map.empty) = None \<or>
           state_json (SDir (Some (Malformed ''{SessionId: 2025'')) Map.empty) =
             Some (Malformed ''{SessionId: 2025'')"
    by simp
  have t: "Ticks (end_current ''Ended to resume crashed session'' ex_crashed) = 4"
    "Clock ex_crashed = ex_clock"
    by (simp_all add: end_current_def ex_crashed_def ex_fresh_def truthy_str_def)
  have iso: "isoformat (ex_clock 5) = ''2025-03-18T19:00:00.000005''"
    "isoformat (ex_clock 6) = ''2025-03-18T19:00:00.000006''"
    by (simp_all add: isoformat_def ex_clock_def zpad2_def zpad4_def zpad6_def digit_def)
  from ResumeSession_survives_corruption[OF plain_name_ex_sid h(1) h(2) f m] h(1)
  show ?thesis
    by (simp add: ex_crashed_resume_id t iso plain_name_ex_sid)
qed

text \<open>
  Two calls of \<open>ResumeSession\<close> for the same crashed session within one second: the first
  returns the new identifier and leaves the crashed directory where it is; the second
  computes the same identifier and raises the \<open>IntegrityError\<close> of the insert.
\<close>

theorem ResumeSession_same_second:
  "plain_name ex_sid \<and> has_session ex_sid ex_crashed \<and>
   CrashSessionDir ex_crashed ex_sid = Some (SDir (Some (Malformed ''{SessionId: 2025'')) Map.empty) \<and>
   fst (ResumeSession ex_sid ex_crashed) = Inr (Some ''20250318190000_resumed_20250318190000'') \<and>
   CrashSessionDir (snd (ResumeSession ex_sid ex_crashed)) ex_sid =
     Some (SDir (Some (Malformed ''{SessionId: 2025'')) Map.empty) \<and>
   has_session ex_sid (snd (ResumeSession ex_sid ex_crashed)) \<and>
   fst (ResumeSession ex_sid (snd (ResumeSession ex_sid ex_crashed))) =
     Inl (PyExc ''IntegrityError'' ''UNIQUE constraint failed: Sessions.SessionId'')"
proof -
  let ?v = "snd (ResumeSession ex_sid ex_crashed)"
  have h: "CrashSessionDir ex_crashed ex_sid =
             Some (SDir (Some (Malformed ''{SessionId: 2025'')) Map.empty)"
    "has_session ex_sid ex_crashed"
    by (simp_all add: ex_crashed_def ex_fresh_def has_session_def)
  have f: "\<not> has_session (resume_id ex_sid ex_crashed) ex_crashed"
    by (simp add: ex_crashed_resume_id) (simp add: ex_crashed_def ex_fresh_def has_session_def ex_sid_def)
  note ok = ResumeSession_ok[OF plain_name_ex_sid h(1) h(2) f]
  have c0: "Clock ex_crashed = ex_clock" by (simp add: ex_crashed_def ex_fresh_def)
  have a: "fst (ResumeSession ex_sid ex_crashed) =
             Inr (Some ''20250318190000_resumed_20250318190000'')"
    by (simp add: ok(1) ex_crashed_resume_id)
  have cd: "CrashSessionDir ?v ex_sid =
              Some (SDir (Some (Malformed ''{SessionId: 2025'')) Map.empty)"
    by (simp add: ok(6) h(1))
  then have cp: "crashed_path ?v ex_sid =
              Some (SDir (Some (Malformed ''{SessionId: 2025'')) Map.empty)"
    by (simp add: crashed_path_plain[OF plain_name_ex_sid])
  have cv: "Clock ?v = ex_clock" by (simp add: ok(7) c0)
  have hs: "has_session ex_sid ?v" using h(2) by (rule has_session_ResumeSession)
  have "has_session (ex_sid @ ''_resumed_20250318190000'') ?v"
    by (simp add: has_session_def ok(4) resume_id_ex_clock[OF c0])
  then have hv: "has_session (resume_id ex_sid ?v) ?v"
    unfolding resume_id_ex_clock[OF cv] .
  note b = ResumeSession_collision(1)[OF cp hv]
  from plain_name_ex_sid h(2) h(1) a cd hs b show ?thesis by (intro conjI)
qed

lemmas StartSession_simps =
  StartSession_def start_id_def Let_def now_def insert_Sessions_def
  has_session_Sessions_upd has_session_image

lemma StartSession_result:
  "fst (StartSession w) =
     (if has_session (start_id w) w
      then Inl (PyExc ''IntegrityError'' ''UNIQUE constraint failed: Sessions.SessionId'')
      else Inr (start_id w))"
  by (simp add: StartSession_simps)

lemma StartSession_SessionId:
  "SessionId (snd (StartSession w)) = Some (start_id w)"
  by (simp add: StartSession_simps)

lemma StartSession_Clock [simp]: "Clock (snd (StartSession w)) = Clock w"
  by (simp add: StartSession_simps)

lemma StartSession_ids:
  "sSessionId ` set (Sessions (snd (StartSession w))) =
     sSessionId ` set (Sessions w) \<union> (if has_session (start_id w) w then {} else {start_id w})"
  by (simp add: StartSession_simps)

lemma has_session_StartSession:
  "has_session x (snd (StartSession w)) = (has_session x w \<or> x = start_id w)"
  by (auto simp: has_session_image StartSession_ids)

lemma has_session_RecordAction [simp]:
  "has_session x (snd (RecordAction t p w)) = has_session x w"
  by (simp add: RecordAction_def Let_def now_def uuid4_def insert_Actions_def has_session_image
        split: sum.splits option.splits)

lemma has_session_update_Actions [simp]:
  "has_session x (update_Actions a e s r w) = has_session x w"
  by (simp add: update_Actions_def)

lemma has_session_CompleteAction [simp]:
  "has_session x (snd (CompleteAction a r s w)) = has_session x w"
  by (simp add: CompleteAction_def Let_def now_def split: sum.splits option.splits)

lemma has_session_CancelAction [simp]:
  "has_session x (snd (CancelAction a w)) = has_session x w"
  by (simp add: CancelAction_def Let_def now_def split: sum.splits option.splits list.splits)

lemma has_session_ExecuteAction [simp]:
  "has_session x (snd (ExecuteAction t (\<lambda>kw v. (f kw, v)) p w)) = has_session x w"
proof (cases "RecordAction t p w")
  case (Pair r w1)
  then have w1: "has_session x w1 = has_session x w"
    by (metis has_session_RecordAction snd_conv)
  show ?thesis
  proof (cases r)
    case None
    with Pair w1 show ?thesis by (simp add: ExecuteAction_def)
  next
    case (Some aid)
    with Pair w1 show ?thesis
      by (simp add: ExecuteAction_def Let_def split: sum.splits)
  qed
qed

lemma CheckForCrashedSessions_shape:
  assumes "CheckForCrashedSessions w = Inr w'"
  shows "w' = w \<or> w' = w\<lparr>LockFile := None\<rparr> \<or>
         (\<exists>sid a c. w' = (snd (UpdateSessionStatus sid ''CRASHED''
                         (w\<lparr>ActiveSessionDir := a, CrashSessionDir := c\<rparr>)))\<lparr>LockFile := None\<rparr>)"
proof (cases "LockFile w")
  case None
  with assms show ?thesis by (simp add: CheckForCrashedSessions_def)
next
  case (Some lock)
  show ?thesis
  proof (cases "strip lock = []")
    case True
    show ?thesis
    proof (cases "CrashSessionDir w ''Active''")
      case (Some x)
      with assms \<open>LockFile w = Some lock\<close> True show ?thesis
        by (simp add: CheckForCrashedSessions_def Let_def)
    next
      case None
      with assms \<open>LockFile w = Some lock\<close> True
      have "w' = (snd (UpdateSessionStatus [] ''CRASHED''
                         (w\<lparr>ActiveSessionDir := Map.empty,
                            CrashSessionDir := (CrashSessionDir w)
                              (''Active'' \<mapsto> SDir None (ActiveSessionDir w))\<rparr>)))
                       \<lparr>LockFile := None\<rparr>"
        by (simp add: CheckForCrashedSessions_def Let_def)
      then show ?thesis by blast
    qed
  next
    case False
    show ?thesis
    proof (cases "ActiveSessionDir w (strip lock)")
      case None
      with assms Some False have "w' = w\<lparr>LockFile := None\<rparr>"
        by (simp add: CheckForCrashedSessions_def Let_def)
      then show ?thesis by blast
    next
      case (Some d)
      show ?thesis
      proof (cases "shutil_move (strip lock) d (CrashSessionDir w)")
        case (Inl e)
        with assms \<open>LockFile w = Some lock\<close> False Some show ?thesis
          by (simp add: CheckForCrashedSessions_def Let_def)
      next
        case (Inr c)
        from CheckForCrashedSessions_moves[OF \<open>LockFile w = Some lock\<close> refl False Some Inr] assms
        have "w' = (snd (UpdateSessionStatus (strip lock) ''CRASHED''
                    (w\<lparr>ActiveSessionDir := (ActiveSessionDir w)(strip lock := None),
                       CrashSessionDir := c\<rparr>)))\<lparr>LockFile := None\<rparr>" by simp
        then show ?thesis by blast
      qed
    qed
  qed
qed

lemma has_session_CheckForCrashedSessions:
  assumes "CheckForCrashedSessions w = Inr w'"
  shows "has_session x w' = has_session x w"
  using CheckForCrashedSessions_shape[OF assms]
  by (elim disjE exE) simp_all

lemma has_session_step: "has_session x w \<Longrightarrow> has_session x (step c w)"
proof (cases c)
  case CallRestart
  assume h: "has_session x w"
  show ?thesis
  proof (cases "SessionManager_init w")
    case (Inl e)
    with CallRestart h show ?thesis by simp
  next
    case (Inr w')
    then have "has_session x w' = has_session x (w\<lparr>SessionId := None\<rparr>)"
      unfolding SessionManager_init_def by (rule has_session_CheckForCrashedSessions)
    with CallRestart Inr h show ?thesis by simp
  qed
qed (simp_all add: has_session_StartSession has_session_ResumeSession)

lemma has_session_run: "has_session x w \<Longrightarrow> has_session x (run cs w)"
  unfolding run_def
  by (induction cs arbitrary: w) (simp_all add: has_session_step)

lemma strftime_microsecond: "strftime (t\<lparr>microsecond := m\<rparr>) = strftime t"
  by (simp add: strftime_def)

text \<open>
  C5 (session identifiers), as the code has it. The identifier \<open>StartSession\<close> computes
  is the clock rendered by \<open>strftime\<close> to the second: the microseconds do not enter it, and
  nothing is added on a collision. When a session with that identifier is in the store,
  \<open>StartSession\<close> raises the \<open>IntegrityError\<close> of the insert and leaves the identifier as
  the manager's current one; otherwise it returns the identifier, which is in the store
  from then on. Hence two invocations on one store that both return, with any calls
  between them, return different identifiers.
\<close>

theorem StartSession_identifiers:
  "start_id w = strftime (Clock w (Ticks (end_current ''Ended to start new session'' w))) \<and>
   strftime (t\<lparr>microsecond := m\<rparr>) = strftime t \<and>
   (has_session (start_id w) w \<longrightarrow>
      fst (StartSession w) =
        Inl (PyExc ''IntegrityError'' ''UNIQUE constraint failed: Sessions.SessionId'') \<and>
      SessionId (snd (StartSession w)) = Some (start_id w)) \<and>
   (\<not> has_session (start_id w) w \<longrightarrow>
      fst (StartSession w) = Inr (start_id w) \<and> has_session (start_id w) (snd (StartSession w))) \<and>
   (fst (StartSession w) = Inr a \<and> fst (StartSession (run cs (snd (StartSession w)))) = Inr b
      \<longrightarrow> a \<noteq> b)"
proof (intro conjI impI)
  show "start_id w = strftime (Clock w (Ticks (end_current ''Ended to start new session'' w)))"
    by (simp add: start_id_def now_def)
  show "strftime (t\<lparr>microsecond := m\<rparr>) = strftime t" by (rule strftime_microsecond)
next
  assume h: "has_session (start_id w) w"
  then show "fst (StartSession w) =
        Inl (PyExc ''IntegrityError'' ''UNIQUE constraint failed: Sessions.SessionId'')"
    by (simp add: StartSession_result)
  show "SessionId (snd (StartSession w)) = Some (start_id w)" by (rule StartSession_SessionId)
next
  assume h: "\<not> has_session (start_id w) w"
  then show "fst (StartSession w) = Inr (start_id w)" by (simp add: StartSession_result)
  show "has_session (start_id w) (snd (StartSession w))" by (simp add: has_session_StartSession)
next
  assume h: "fst (StartSession w) = Inr a \<and>
             fst (StartSession (run cs (snd (StartSession w)))) = Inr b"
  let ?v = "run cs (snd (StartSession w))"
  from h have a: "a = start_id w"
    by (simp add: StartSession_result split: if_splits)
  from h have b: "b = start_id ?v" "\<not> has_session (start_id ?v) ?v"
    by (simp_all add: StartSession_result split: if_splits)
  have "has_session a (snd (StartSession w))" using a by (simp add: has_session_StartSession)
  then have "has_session a ?v" by (rule has_session_run)
  with b show "a \<noteq> b" by metis
qed

lemma strftime_ex_clock: "strftime (ex_clock n) = ''20250318190000''"
  by (simp add: strftime_def ex_clock_def zpad2_def zpad4_def digit_def)

lemma strftime_ex_clock_two:
  "strftime (ex_clock_two n) = (if n = 0 then ''20250318190000'' else ''20250318190001'')"
  by (simp add: strftime_def ex_clock_two_def zpad2_def zpad4_def digit_def)

lemma start_id_ex_clock: "Clock w = ex_clock \<Longrightarrow> start_id w = ''20250318190000''"
  by (simp add: start_id_def now_def strftime_ex_clock)

lemma Ticks_EndSession_mono: "Ticks w \<le> Ticks (snd (EndSession s w))"
  by (simp add: EndSession_def EndSession_finish_def now_def Let_def
        split: option.splits sum.splits)

lemma Ticks_end_current_mono: "Ticks w \<le> Ticks (end_current s w)"
  by (simp add: end_current_def Ticks_EndSession_mono)

lemma Ticks_SaveSessionState_mono: "Ticks w \<le> Ticks (snd (SaveSessionState st w))"
  by (simp add: SaveSessionState_def now_def uuid4_def insert_StateSnapshots_def Let_def
        split: option.splits)

lemma Ticks_StartSession_pos: "0 < Ticks (snd (StartSession w))"
proof (cases "has_session (start_id w) w")
  case True
  then show ?thesis by (simp add: StartSession_simps)
next
  case False
  then show ?thesis by (simp add: StartSession_simps)
qed

text \<open>
  Two clock readings in the same second: on separate fresh stores both invocations
  return the same identifier; on one store the second invocation raises and the manager
  holds the identifier of the first session again.
\<close>

theorem StartSession_same_second:
  "Clock ex_fresh 0 \<noteq> Clock ex_fresh 7 \<and>
   fst (StartSession ex_fresh) = Inr ''20250318190000'' \<and>
   fst (StartSession (ex_fresh\<lparr>Ticks := 7\<rparr>)) = Inr ''20250318190000'' \<and>
   fst (StartSession (snd (StartSession ex_fresh))) =
     Inl (PyExc ''IntegrityError'' ''UNIQUE constraint failed: Sessions.SessionId'') \<and>
   SessionId (snd (StartSession (snd (StartSession ex_fresh)))) = Some ''20250318190000''"
proof -
  let ?v = "snd (StartSession ex_fresh)"
  have c: "Clock ex_fresh = ex_clock" "Clock (ex_fresh\<lparr>Ticks := 7\<rparr>) = ex_clock"
    by (simp_all add: ex_fresh_def)
  have n: "\<not> has_session ''20250318190000'' ex_fresh"
    "\<not> has_session ''20250318190000'' (ex_fresh\<lparr>Ticks := 7\<rparr>)"
    by (simp_all add: ex_fresh_def has_session_def)
  have a: "Clock ex_fresh 0 \<noteq> Clock ex_fresh 7" by (simp add: ex_fresh_def ex_clock_def)
  have b: "fst (StartSession ex_fresh) = Inr ''20250318190000''"
    by (simp add: StartSession_result start_id_ex_clock[OF c(1)] n)
  have b': "fst (StartSession (ex_fresh\<lparr>Ticks := 7\<rparr>)) = Inr ''20250318190000''"
    by (simp add: StartSession_result start_id_ex_clock[OF c(2)] n)
  have cv: "Clock ?v = ex_clock" by (simp add: c)
  have hv: "has_session ''20250318190000'' ?v"
    by (simp add: has_session_StartSession start_id_ex_clock[OF c(1)])
  have d: "fst (StartSession ?v) =
     Inl (PyExc ''IntegrityError'' ''UNIQUE constraint failed: Sessions.SessionId'')"
    by (simp add: StartSession_result start_id_ex_clock[OF cv] hv)
  have e: "SessionId (snd (StartSession ?v)) = Some ''20250318190000''"
    by (simp add: StartSession_SessionId start_id_ex_clock[OF cv])
  from a b b' d e show ?thesis by (intro conjI)
qed

theorem StartSession_identifiers_witness:
  "has_session (start_id ex_running) ex_running \<and>
   fst (StartSession ex_running) =
     Inl (PyExc ''IntegrityError'' ''UNIQUE constraint failed: Sessions.SessionId'') \<and>
   fst (StartSession ex_fresh_two) = Inr ''20250318190000'' \<and>
   has_session ''20250318190000'' (snd (StartSession ex_fresh_two)) \<and>
   fst (StartSession (run [] (snd (StartSession ex_fresh_two)))) = Inr ''20250318190001'' \<and>
   ''20250318190000'' \<noteq> ''20250318190001''"
proof -
  let ?v = "snd (StartSession ex_fresh_two)"
  have r: "Clock ex_running = ex_clock" by (simp add: ex_running_def ex_fresh_def)
  have hr: "has_session (start_id ex_running) ex_running"
    by (simp add: start_id_ex_clock[OF r]) (simp add: ex_running_def ex_fresh_def has_session_def ex_sid_def)
  from StartSession_identifiers[of ex_running, THEN conjunct2, THEN conjunct2, THEN conjunct1]
  have "has_session (start_id ex_running) ex_running \<longrightarrow>
      fst (StartSession ex_running) =
        Inl (PyExc ''IntegrityError'' ''UNIQUE constraint failed: Sessions.SessionId'') \<and>
      SessionId (snd (StartSession ex_running)) = Some (start_id ex_running)"
    .
  with hr have a: "fst (StartSession ex_running) =
     Inl (PyExc ''IntegrityError'' ''UNIQUE constraint failed: Sessions.SessionId'')"
    by simp
  have s0: "start_id ex_fresh_two = ''20250318190000''"
    by (simp add: start_id_def now_def end_current_def truthy_str_def ex_fresh_two_def
          ex_fresh_def strftime_ex_clock_two)
  have n0: "\<not> has_session (start_id ex_fresh_two) ex_fresh_two"
    by (simp add: s0) (simp add: ex_fresh_two_def ex_fresh_def has_session_def)
  from StartSession_identifiers[of ex_fresh_two, THEN conjunct2, THEN conjunct2, THEN conjunct2,
         THEN conjunct1]
  have "\<not> has_session (start_id ex_fresh_two) ex_fresh_two \<longrightarrow>
          fst (StartSession ex_fresh_two) = Inr (start_id ex_fresh_two) \<and>
          has_session (start_id ex_fresh_two) (snd (StartSession ex_fresh_two))"
    .
  with n0 have b: "fst (StartSession ex_fresh_two) = Inr ''20250318190000''"
    and c: "has_session ''20250318190000'' ?v"
    by (simp_all add: s0)
  have "0 < Ticks (end_current ''Ended to start new session'' ?v)"
    using Ticks_StartSession_pos[of ex_fresh_two]
          Ticks_end_current_mono[of ?v "''Ended to start new session''"] by linarith
  then have s1: "start_id ?v = ''20250318190001''"
    by (simp add: start_id_def now_def strftime_ex_clock_two ex_fresh_two_def)
  have n1: "\<not> has_session (start_id ?v) ?v"
    by (simp add: s1 has_session_StartSession s0)
       (simp add: ex_fresh_two_def ex_fresh_def has_session_def)
  have d: "fst (StartSession (run [] ?v)) = Inr ''20250318190001''"
    by (simp add: run_def StartSession_result n1) (simp add: s1)
  from StartSession_identifiers[where w = ex_fresh_two and a = "''20250318190000''"
         and cs = "[]" and b = "''20250318190001''", THEN conjunct2, THEN conjunct2,
         THEN conjunct2, THEN conjunct2]
  have "fst (StartSession ex_fresh_two) = Inr ''20250318190000'' \<and>
        fst (StartSession (run [] (snd (StartSession ex_fresh_two)))) = Inr ''20250318190001''
        \<longrightarrow> ''20250318190000'' \<noteq> ''20250318190001''"
    .
  with b d have e: "''20250318190000'' \<noteq> ''20250318190001''" by (elim impE) (intro conjI)
  from hr a b c d e show ?thesis by (intro conjI)
qed

end
